theory Spec2Isabelle
  imports Main
begin

section \<open>Python values, exceptions and builtins used by \<^verbatim>\<open>plot_tool.py\<close>\<close>

text \<open>
  The values that flow through the four tools are what \<^verbatim>\<open>json.loads\<close> returns and
  what the tools store in the session state: \<^verbatim>\<open>None\<close>, booleans, integers, floats,
  strings, lists and string-keyed dicts. A float is carried by its \<^verbatim>\<open>repr\<close>; no
  arithmetic is done on it. A dict is an association list in insertion order; lookup
  takes the first binding of a key (a Python dict has one binding per key).
\<close>

datatype pyval =
    PNone
  | PBool bool
  | PInt int
  | PFloat string
  | PStr string
  | PList "pyval list"
  | PDict "(string \<times> pyval) list"

text \<open>
  Exceptions are values. Each constructor carries \<^verbatim>\<open>str(e)\<close>. The first two are the
  classes \<^verbatim>\<open>plot_tool\<close> handles by name; every other constructor is a subclass of
  \<^verbatim>\<open>Exception\<close> that only the last handler catches (\<open>ValueError\<close> stands for a
  \<^verbatim>\<open>ValueError\<close> that is not a \<^verbatim>\<open>JSONDecodeError\<close>; \<open>OtherError\<close> carries the class name
  and the message). \<^verbatim>\<open>BaseException\<close>s that are not \<^verbatim>\<open>Exception\<close>s (interrupts, exits) are
  not modelled.
\<close>

datatype exn =
    JSONDecodeError string
  | KeyError string
  | TypeError string
  | AttributeError string
  | ValueError string
  | OtherError string string

fun exn_str :: "exn \<Rightarrow> string" where
  "exn_str (JSONDecodeError m) = m"
| "exn_str (KeyError m) = m"
| "exn_str (TypeError m) = m"
| "exn_str (AttributeError m) = m"
| "exn_str (ValueError m) = m"
| "exn_str (OtherError c m) = m"

definition quoted :: "string \<Rightarrow> string" where
  "quoted s = [CHR 0x27] @ s @ [CHR 0x27]"

fun type_name :: "pyval \<Rightarrow> string" where
  "type_name PNone = ''NoneType''"
| "type_name (PBool b) = ''bool''"
| "type_name (PInt i) = ''int''"
| "type_name (PFloat r) = ''float''"
| "type_name (PStr s) = ''str''"
| "type_name (PList xs) = ''list''"
| "type_name (PDict kvs) = ''dict''"

text \<open>
  \<^verbatim>\<open>v[k]\<close> for a string key \<open>k\<close>. A missing key raises \<^verbatim>\<open>KeyError(k)\<close>, whose
  \<^verbatim>\<open>str\<close> is \<^verbatim>\<open>repr(k)\<close>: the key in single quotes, for the identifier-like keys the
  source subscripts with (\<^verbatim>\<open>'df'\<close>, \<^verbatim>\<open>'x_col'\<close>, \<^verbatim>\<open>'y_col'\<close>, \<^verbatim>\<open>'filename'\<close>).
  Messages are CPython 3.11's.
\<close>

fun py_getitem :: "pyval \<Rightarrow> string \<Rightarrow> exn + pyval" where
  "py_getitem (PDict kvs) k =
     (case map_of kvs k of
        None \<Rightarrow> Inl (KeyError (quoted k))
      | Some v \<Rightarrow> Inr v)"
| "py_getitem (PList xs) k = Inl (TypeError ''list indices must be integers or slices, not str'')"
| "py_getitem (PStr s) k = Inl (TypeError (''string indices must be integers, not '' @ quoted ''str''))"
| "py_getitem v k = Inl (TypeError (quoted (type_name v) @ '' object is not subscriptable''))"

text \<open>Iteration (\<^verbatim>\<open>for c in v\<close>): a list yields its items, a dict its keys, a string its characters.\<close>

fun py_iter :: "pyval \<Rightarrow> exn + pyval list" where
  "py_iter (PList xs) = Inr xs"
| "py_iter (PDict kvs) = Inr (map (\<lambda>kv. PStr (fst kv)) kvs)"
| "py_iter (PStr s) = Inr (map (\<lambda>c. PStr [c]) s)"
| "py_iter v = Inl (TypeError (quoted (type_name v) @ '' object is not iterable''))"

fun py_len :: "pyval \<Rightarrow> exn + nat" where
  "py_len (PList xs) = Inr (length xs)"
| "py_len (PDict kvs) = Inr (length kvs)"
| "py_len (PStr s) = Inr (length s)"
| "py_len v = Inl (TypeError (''object of type '' @ quoted (type_name v) @ '' has no len()''))"

text \<open>\<^verbatim>\<open>charts.append(chart_info)\<close>: only a list has \<^verbatim>\<open>append\<close>.\<close>

fun py_append :: "pyval \<Rightarrow> pyval \<Rightarrow> exn + pyval" where
  "py_append (PList xs) c = Inr (PList (xs @ [c]))"
| "py_append v c =
     Inl (AttributeError (quoted (type_name v) @ '' object has no attribute '' @ quoted ''append''))"

subsection \<open>Strings\<close>

text \<open>
  \<^verbatim>\<open>s.replace('_', ' ')\<close>. A \<open>string\<close> is a list of 8-bit characters (the UTF-8 bytes of
  a Python string); the underscore is a single byte that occurs in no other
  character's encoding.
\<close>

definition replace_underscores :: "string \<Rightarrow> string" where
  "replace_underscores s = map (\<lambda>c. if c = CHR ''_'' then CHR '' '' else c) s"

text \<open>\<^verbatim>\<open>f.endswith('.png')\<close>.\<close>

definition endswith :: "string \<Rightarrow> string \<Rightarrow> bool" where
  "endswith s suf = (length suf \<le> length s \<and> drop (length s - length suf) s = suf)"

text \<open>Decimal rendering of a non-negative integer, as \<^verbatim>\<open>str(n)\<close> in an f-string.\<close>

definition digit_char :: "nat \<Rightarrow> char" where
  "digit_char d = ''0123456789'' ! (d mod 10)"

fun show_nat :: "nat \<Rightarrow> string" where
  "show_nat n = (if n < 10 then [digit_char n] else show_nat (n div 10) @ [digit_char (n mod 10)])"

declare show_nat.simps [simp del]

subsection \<open>The clock and \<^verbatim>\<open>strftime("%Y%m%d_%H%M%S")\<close>\<close>

record datetime =
  year :: nat
  month :: nat
  day :: nat
  hour :: nat
  minute :: nat
  second :: nat

text \<open>
  What a \<^verbatim>\<open>datetime\<close> read from the wall clock satisfies. The year is taken from 1000 on,
  where \<^verbatim>\<open>%Y\<close> prints four digits on every platform.
\<close>

definition valid_datetime :: "datetime \<Rightarrow> bool" where
  "valid_datetime t =
     (1000 \<le> year t \<and> year t \<le> 9999 \<and> 1 \<le> month t \<and> month t \<le> 12 \<and>
      1 \<le> day t \<and> day t \<le> 31 \<and> hour t \<le> 23 \<and> minute t \<le> 59 \<and> second t \<le> 59)"

definition zero_pad :: "nat \<Rightarrow> string \<Rightarrow> string" where
  "zero_pad w s = replicate (w - length s) CHR ''0'' @ s"

definition strftime_Ymd_HMS :: "datetime \<Rightarrow> string" where
  "strftime_Ymd_HMS t =
     zero_pad 4 (show_nat (year t)) @ zero_pad 2 (show_nat (month t)) @
     zero_pad 2 (show_nat (day t)) @ ''_'' @
     zero_pad 2 (show_nat (hour t)) @ zero_pad 2 (show_nat (minute t)) @
     zero_pad 2 (show_nat (second t))"

definition is_digit :: "char \<Rightarrow> bool" where
  "is_digit c = (48 \<le> (of_char c :: nat) \<and> (of_char c :: nat) \<le> 57)"

text \<open>The shape \<^verbatim>\<open>YYYYMMDD_HHMMSS\<close>: eight digits, an underscore, six digits.\<close>

definition timestamp_shape :: "string \<Rightarrow> bool" where
  "timestamp_shape ts =
     (length ts = 15 \<and> list_all is_digit (take 8 ts) \<and> ts ! 8 = CHR ''_'' \<and>
      list_all is_digit (drop 9 ts))"

text \<open>
  Reading a timestamp back: the decimal value of each field of \<^verbatim>\<open>YYYYMMDD_HHMMSS\<close>, by
  position. It states what the digits of a timestamp mean.
\<close>

definition read_nat :: "string \<Rightarrow> nat" where
  "read_nat s = foldl (\<lambda>acc c. 10 * acc + ((of_char c :: nat) - 48)) 0 s"

definition read_Ymd_HMS :: "string \<Rightarrow> datetime" where
  "read_Ymd_HMS ts =
     \<lparr>year = read_nat (take 4 ts), month = read_nat (take 2 (drop 4 ts)),
      day = read_nat (take 2 (drop 6 ts)), hour = read_nat (take 2 (drop 9 ts)),
      minute = read_nat (take 2 (drop 11 ts)), second = read_nat (take 2 (drop 13 ts))\<rparr>"

subsection \<open>\<^verbatim>\<open>os.path.join\<close> (POSIX) of two components\<close>

definition path_join :: "string \<Rightarrow> string \<Rightarrow> string" where
  "path_join a b =
     (if b \<noteq> [] \<and> hd b = CHR ''/'' then b
      else if a = [] \<or> last a = CHR ''/'' then a @ b
      else a @ ''/'' @ b)"

section \<open>The external collaborators\<close>

text \<open>
  An artifact as the store hands it back: a \<^verbatim>\<open>google.genai.types.Part\<close>, whose
  \<^verbatim>\<open>inline_data\<close> is an optional \<^verbatim>\<open>Blob\<close> of bytes with an optional mime type, or an
  object with no \<^verbatim>\<open>inline_data\<close> attribute at all (the case
  \<^verbatim>\<open>hasattr(chart_part, 'inline_data')\<close> tests for). Every such object is truthy.
\<close>

datatype blob = Blob (blob_data: "nat list") (mime_type: "string option")

datatype part = Part (inline_data: "blob option") | NoInlineData

text \<open>\<^verbatim>\<open>types.Part.from_bytes(data=..., mime_type=...)\<close>.\<close>

definition Part_from_bytes :: "nat list \<Rightarrow> string \<Rightarrow> part" where
  "Part_from_bytes bytes mime = Part (Some (Blob bytes (Some mime)))"

text \<open>
  The \<^verbatim>\<open>ToolContext\<close>: the artifact store (of any type \<open>'a\<close>, reached only through the
  store's operations below) and the session state, a string-keyed mapping.
\<close>

record 'a tool_context =
  artifacts :: 'a
  state :: "string \<rightharpoonup> pyval"

text \<open>\<^verbatim>\<open>state.get(key, default)\<close>.\<close>

definition state_get :: "(string \<rightharpoonup> pyval) \<Rightarrow> string \<Rightarrow> pyval \<Rightarrow> pyval" where
  "state_get st k d = (case st k of None \<Rightarrow> d | Some v \<Rightarrow> v)"

text \<open>
  Everything the module calls and does not define is a field of the environment: the
  JSON parser, \<^verbatim>\<open>str()\<close> of a value that is not a string, \<^verbatim>\<open>str.title()\<close> (which
  cases by Unicode's tables), pandas' \<^verbatim>\<open>DataFrame\<close>
  (of type \<open>'d\<close>) with its column labels, the four plotly express functions and the
  figure (of type \<open>'g\<close>) they build, \<^verbatim>\<open>update_layout\<close>, the clock, the rasteriser, the
  artifact store's three operations and the two filesystem operations (on a filesystem
  of type \<open>'f\<close>). A call that can raise returns \<open>Inl\<close> of the exception; an operation
  on the store or the filesystem also returns the store or filesystem it leaves behind.
\<close>

record ('a, 'f, 'd, 'g) env =
  json_loads :: "string \<Rightarrow> exn + pyval"
  str_of :: "pyval \<Rightarrow> string"
  str_title :: "string \<Rightarrow> string"
  DataFrame :: "pyval \<Rightarrow> exn + 'd"
  columns :: "'d \<Rightarrow> pyval list"
  px_line :: "'d \<Rightarrow> pyval \<Rightarrow> pyval \<Rightarrow> string \<Rightarrow> exn + 'g"
  px_bar :: "'d \<Rightarrow> pyval \<Rightarrow> pyval \<Rightarrow> string \<Rightarrow> exn + 'g"
  px_scatter :: "'d \<Rightarrow> pyval \<Rightarrow> pyval \<Rightarrow> string \<Rightarrow> exn + 'g"
  px_area :: "'d \<Rightarrow> pyval \<Rightarrow> pyval \<Rightarrow> string \<Rightarrow> exn + 'g"
  update_layout :: "'g \<Rightarrow> nat \<Rightarrow> string \<Rightarrow> string \<Rightarrow> string \<Rightarrow> exn + 'g"
  now :: datetime
  to_image :: "'g \<Rightarrow> string \<Rightarrow> nat \<Rightarrow> nat \<Rightarrow> nat \<Rightarrow> exn + nat list"
  save_artifact :: "'a \<Rightarrow> string \<Rightarrow> part \<Rightarrow> (exn + int) \<times> 'a"
  list_artifacts :: "'a \<Rightarrow> (exn + string list) \<times> 'a"
  load_artifact :: "'a \<Rightarrow> string \<Rightarrow> (exn + part option) \<times> 'a"
  makedirs :: "'f \<Rightarrow> string \<Rightarrow> bool \<Rightarrow> exn option \<times> 'f"
  write_image :: "'f \<Rightarrow> 'g \<Rightarrow> string \<Rightarrow> nat \<Rightarrow> nat \<Rightarrow> nat \<Rightarrow> exn option \<times> 'f"

text \<open>\<^verbatim>\<open>str(v)\<close> as an f-string applies it: a string is itself.\<close>

definition py_str :: "('a, 'f, 'd, 'g) env \<Rightarrow> pyval \<Rightarrow> string" where
  "py_str env v = (case v of PStr s \<Rightarrow> s | _ \<Rightarrow> str_of env v)"

text \<open>\<^verbatim>\<open>v.replace('_', ' ').title()\<close> on a value: only a \<^verbatim>\<open>str\<close> has \<^verbatim>\<open>replace\<close>.\<close>

fun axis_title :: "('a, 'f, 'd, 'g) env \<Rightarrow> pyval \<Rightarrow> exn + string" where
  "axis_title env (PStr s) = Inr (str_title env (replace_underscores s))"
| "axis_title env v =
     Inl (AttributeError (quoted (type_name v) @ '' object has no attribute '' @ quoted ''replace''))"

section \<open>\<^verbatim>\<open>plot_tool\<close>\<close>

text \<open>A tool's return value: a dict literal, in the order the source writes its keys.\<close>

type_synonym result = "(string \<times> pyval) list"

definition status :: "result \<Rightarrow> pyval option" where
  "status r = map_of r ''status''"

definition message :: "result \<Rightarrow> pyval option" where
  "message r = map_of r ''message''"

text \<open>Lines 25 to 28: parse \<^verbatim>\<open>params\<close> and read its three keys.\<close>

definition parse_params ::
  "('a, 'f, 'd, 'g) env \<Rightarrow> string \<Rightarrow> exn + (pyval \<times> pyval \<times> pyval)" where
  "parse_params env params =
     (case json_loads env params of
        Inl e \<Rightarrow> Inl e
      | Inr data \<Rightarrow>
          (case py_getitem data ''df'' of
             Inl e \<Rightarrow> Inl e
           | Inr df_data \<Rightarrow>
               (case py_getitem data ''x_col'' of
                  Inl e \<Rightarrow> Inl e
                | Inr x_col \<Rightarrow>
                    (case py_getitem data ''y_col'' of
                       Inl e \<Rightarrow> Inl e
                     | Inr y_col \<Rightarrow> Inr (df_data, x_col, y_col)))))"

text \<open>Lines 34 to 44: the chart function chosen by \<^verbatim>\<open>chart_type\<close>, line by default.\<close>

definition create_chart ::
  "('a, 'f, 'd, 'g) env \<Rightarrow> string \<Rightarrow> 'd \<Rightarrow> pyval \<Rightarrow> pyval \<Rightarrow> exn + 'g" where
  "create_chart env chart_type df x_col y_col =
     (let title = py_str env y_col @ '' vs '' @ py_str env x_col in
      if chart_type = ''line'' then px_line env df x_col y_col title
      else if chart_type = ''bar'' then px_bar env df x_col y_col title
      else if chart_type = ''scatter'' then px_scatter env df x_col y_col title
      else if chart_type = ''area'' then px_area env df x_col y_col title
      else px_line env df x_col y_col title)"

text \<open>Lines 31 to 52: the data frame, the chart and its layout.\<close>

definition build_figure ::
  "('a, 'f, 'd, 'g) env \<Rightarrow> string \<Rightarrow> pyval \<Rightarrow> pyval \<Rightarrow> pyval \<Rightarrow> exn + 'g" where
  "build_figure env chart_type df_data x_col y_col =
     (case DataFrame env df_data of
        Inl e \<Rightarrow> Inl e
      | Inr df \<Rightarrow>
          (case create_chart env chart_type df x_col y_col of
             Inl e \<Rightarrow> Inl e
           | Inr fig \<Rightarrow>
               (case axis_title env x_col of
                  Inl e \<Rightarrow> Inl e
                | Inr xaxis_title \<Rightarrow>
                    (case axis_title env y_col of
                       Inl e \<Rightarrow> Inl e
                     | Inr yaxis_title \<Rightarrow>
                         update_layout env fig 16 xaxis_title yaxis_title ''plotly_white''))))"

text \<open>Lines 55 and 56.\<close>

definition make_filename ::
  "('a, 'f, 'd, 'g) env \<Rightarrow> string \<Rightarrow> pyval \<Rightarrow> pyval \<Rightarrow> string \<Rightarrow> string" where
  "make_filename env chart_type x_col y_col timestamp =
     chart_type @ ''_'' @ py_str env y_col @ ''_vs_'' @ py_str env x_col @ ''_'' @ timestamp @ ''.png''"

text \<open>Lines 71 to 78: the record tracked in the session state.\<close>

definition chart_info ::
  "string \<Rightarrow> string \<Rightarrow> pyval \<Rightarrow> pyval \<Rightarrow> string \<Rightarrow> int \<Rightarrow> pyval" where
  "chart_info filename chart_type x_col y_col timestamp version =
     PDict [(''filename'', PStr filename), (''chart_type'', PStr chart_type),
            (''x_col'', x_col), (''y_col'', y_col),
            (''timestamp'', PStr timestamp), (''version'', PInt version)]"

text \<open>Lines 60 to 88: the branch taken when a \<^verbatim>\<open>tool_context\<close> is given.\<close>

definition save_as_artifact ::
  "('a, 'f, 'd, 'g) env \<Rightarrow> 'g \<Rightarrow> string \<Rightarrow> string \<Rightarrow> pyval \<Rightarrow> pyval \<Rightarrow> string \<Rightarrow>
   'a tool_context \<Rightarrow> (exn + result) \<times> 'a tool_context" where
  "save_as_artifact env fig filename chart_type x_col y_col timestamp ctx =
     (case to_image env fig ''png'' 800 600 2 of
        Inl e \<Rightarrow> (Inl e, ctx)
      | Inr img_bytes \<Rightarrow>
          (case save_artifact env (artifacts ctx) filename (Part_from_bytes img_bytes ''image/png'') of
             (Inl e, store') \<Rightarrow> (Inl e, ctx\<lparr>artifacts := store'\<rparr>)
           | (Inr version, store') \<Rightarrow>
               (let ctx1 = ctx\<lparr>artifacts := store'\<rparr>;
                    charts = state_get (state ctx1) ''generated_charts'' (PList [])
                in case py_append charts (chart_info filename chart_type x_col y_col timestamp version) of
                     Inl e \<Rightarrow> (Inl e, ctx1)
                   | Inr charts' \<Rightarrow>
                       (Inr [(''status'', PStr ''success''),
                             (''artifact_name'', PStr filename),
                             (''version'', PInt version),
                             (''chart_type'', PStr chart_type),
                             (''message'', PStr (''Chart saved as artifact: '' @ filename))],
                        ctx1\<lparr>state := (state ctx1)(''generated_charts'' \<mapsto> charts')\<rparr>))))"

text \<open>Lines 91 to 100: the branch taken without a \<^verbatim>\<open>tool_context\<close>.\<close>

definition save_as_file ::
  "('a, 'f, 'd, 'g) env \<Rightarrow> 'g \<Rightarrow> string \<Rightarrow> string \<Rightarrow> string \<Rightarrow> 'f \<Rightarrow> (exn + result) \<times> 'f" where
  "save_as_file env fig filename chart_type save_folder fs =
     (case makedirs env fs save_folder True of
        (Some e, fs1) \<Rightarrow> (Inl e, fs1)
      | (None, fs1) \<Rightarrow>
          (let filepath = path_join save_folder filename
           in case write_image env fs1 fig filepath 800 600 2 of
                (Some e, fs2) \<Rightarrow> (Inl e, fs2)
              | (None, fs2) \<Rightarrow>
                  (Inr [(''status'', PStr ''success''),
                        (''filepath'', PStr filepath),
                        (''chart_type'', PStr chart_type),
                        (''message'', PStr (''Chart saved to '' @ filepath))],
                   fs2)))"

text \<open>Lines 24 to 100: the body of the \<^verbatim>\<open>try\<close>.\<close>

definition plot_tool_body ::
  "('a, 'f, 'd, 'g) env \<Rightarrow> string \<Rightarrow> string \<Rightarrow> string \<Rightarrow> 'a tool_context option \<Rightarrow> 'f \<Rightarrow>
   (exn + result) \<times> 'a tool_context option \<times> 'f" where
  "plot_tool_body env params chart_type save_folder tool_context fs =
     (case parse_params env params of
        Inl e \<Rightarrow> (Inl e, tool_context, fs)
      | Inr (df_data, x_col, y_col) \<Rightarrow>
          (case build_figure env chart_type df_data x_col y_col of
             Inl e \<Rightarrow> (Inl e, tool_context, fs)
           | Inr fig \<Rightarrow>
               (let timestamp = strftime_Ymd_HMS (now env);
                    filename = make_filename env chart_type x_col y_col timestamp
                in case tool_context of
                     Some ctx \<Rightarrow>
                       (case save_as_artifact env fig filename chart_type x_col y_col timestamp ctx of
                          (r, ctx') \<Rightarrow> (r, Some ctx', fs))
                   | None \<Rightarrow>
                       (case save_as_file env fig filename chart_type save_folder fs of
                          (r, fs') \<Rightarrow> (r, None, fs')))))"

text \<open>Lines 102 to 107: the three handlers, tried in this order.\<close>

fun plot_tool_except :: "exn \<Rightarrow> result" where
  "plot_tool_except (JSONDecodeError m) =
     [(''status'', PStr ''error''), (''message'', PStr ''Invalid JSON format in params'')]"
| "plot_tool_except (KeyError m) =
     [(''status'', PStr ''error''), (''message'', PStr (''Missing key in JSON data: '' @ m))]"
| "plot_tool_except e =
     [(''status'', PStr ''error''), (''message'', PStr (''Error generating chart: '' @ exn_str e))]"

definition plot_tool ::
  "('a, 'f, 'd, 'g) env \<Rightarrow> string \<Rightarrow> string \<Rightarrow> string \<Rightarrow> 'a tool_context option \<Rightarrow> 'f \<Rightarrow>
   result \<times> 'a tool_context option \<times> 'f" where
  "plot_tool env params chart_type save_folder tool_context fs =
     (case plot_tool_body env params chart_type save_folder tool_context fs of
        (Inl e, w) \<Rightarrow> (plot_tool_except e, w)
      | (Inr r, w) \<Rightarrow> (r, w))"

text \<open>Line 11: a call may leave out \<^verbatim>\<open>chart_type\<close> and \<^verbatim>\<open>save_folder\<close>.\<close>

definition chart_type_arg :: "string option \<Rightarrow> string" where
  "chart_type_arg given = (case given of None \<Rightarrow> ''line'' | Some t \<Rightarrow> t)"

definition save_folder_arg :: "string option \<Rightarrow> string" where
  "save_folder_arg given = (case given of None \<Rightarrow> ''charts'' | Some d \<Rightarrow> d)"

definition plot_tool_call ::
  "('a, 'f, 'd, 'g) env \<Rightarrow> string \<Rightarrow> string option \<Rightarrow> string option \<Rightarrow> 'a tool_context option \<Rightarrow> 'f \<Rightarrow>
   result \<times> 'a tool_context option \<times> 'f" where
  "plot_tool_call env params chart_type save_folder tool_context fs =
     plot_tool env params (chart_type_arg chart_type) (save_folder_arg save_folder) tool_context fs"

section \<open>\<^verbatim>\<open>list_charts_tool\<close>\<close>

definition list_charts_tool ::
  "('a, 'f, 'd, 'g) env \<Rightarrow> 'a tool_context option \<Rightarrow> result \<times> 'a tool_context option" where
  "list_charts_tool env tool_context =
     (case tool_context of
        None \<Rightarrow>
          ([(''status'', PStr ''error''),
            (''message'', PStr ''ToolContext required for artifact access'')], None)
      | Some ctx \<Rightarrow>
          (case list_artifacts env (artifacts ctx) of
             (Inl e, store') \<Rightarrow>
               ([(''status'', PStr ''error''),
                 (''message'', PStr (''Error listing charts: '' @ exn_str e))],
                Some (ctx\<lparr>artifacts := store'\<rparr>))
           | (Inr names, store') \<Rightarrow>
               (let ctx1 = ctx\<lparr>artifacts := store'\<rparr>;
                    chart_artifacts = filter (\<lambda>f. endswith f ''.png'') names;
                    charts_history = state_get (state ctx1) ''generated_charts'' (PList [])
                in ([(''status'', PStr ''success''),
                     (''chart_artifacts'', PList (map PStr chart_artifacts)),
                     (''charts_history'', charts_history),
                     (''total_charts'', PInt (int (length chart_artifacts))),
                     (''message'',
                        PStr (''Found '' @ show_nat (length chart_artifacts) @ '' chart artifacts''))],
                    Some ctx1))))"

section \<open>\<^verbatim>\<open>load_chart_tool\<close>\<close>

text \<open>
  Lines 167 to 171: the scan for the first record whose \<^verbatim>\<open>filename\<close> is the one asked
  for. A record that cannot be subscripted with \<^verbatim>\<open>"filename"\<close> raises when the scan
  reaches it.
\<close>

fun find_chart :: "pyval list \<Rightarrow> string \<Rightarrow> exn + pyval" where
  "find_chart [] chart_filename = Inr PNone"
| "find_chart (chart # rest) chart_filename =
     (case py_getitem chart ''filename'' of
        Inl e \<Rightarrow> Inl e
      | Inr name \<Rightarrow> if name = PStr chart_filename then Inr chart else find_chart rest chart_filename)"

text \<open>
  Line 177: \<^verbatim>\<open>chart_part.inline_data.mime_type if hasattr(chart_part, 'inline_data') else
  "image/png"\<close>.
\<close>

fun part_mime_type :: "part \<Rightarrow> exn + pyval" where
  "part_mime_type NoInlineData = Inr (PStr ''image/png'')"
| "part_mime_type (Part None) =
     Inl (AttributeError (quoted ''NoneType'' @ '' object has no attribute '' @ quoted ''mime_type''))"
| "part_mime_type (Part (Some b)) =
     Inr (case mime_type b of None \<Rightarrow> PNone | Some m \<Rightarrow> PStr m)"

text \<open>Lines 156 to 179: the body of the \<^verbatim>\<open>try\<close>.\<close>

definition load_chart_body ::
  "('a, 'f, 'd, 'g) env \<Rightarrow> string \<Rightarrow> 'a tool_context \<Rightarrow> (exn + result) \<times> 'a tool_context" where
  "load_chart_body env chart_filename ctx =
     (case load_artifact env (artifacts ctx) chart_filename of
        (Inl e, store') \<Rightarrow> (Inl e, ctx\<lparr>artifacts := store'\<rparr>)
      | (Inr None, store') \<Rightarrow>
          (Inr [(''status'', PStr ''error''),
                (''message'',
                   PStr (''Chart '' @ quoted chart_filename @ '' not found in artifacts''))],
           ctx\<lparr>artifacts := store'\<rparr>)
      | (Inr (Some chart_part), store') \<Rightarrow>
          (let ctx1 = ctx\<lparr>artifacts := store'\<rparr>;
               charts_history = state_get (state ctx1) ''generated_charts'' (PList [])
           in case py_iter charts_history of
                Inl e \<Rightarrow> (Inl e, ctx1)
              | Inr charts \<Rightarrow>
                  (case find_chart charts chart_filename of
                     Inl e \<Rightarrow> (Inl e, ctx1)
                   | Inr info \<Rightarrow>
                       (case part_mime_type chart_part of
                          Inl e \<Rightarrow> (Inl e, ctx1)
                        | Inr mime \<Rightarrow>
                            (Inr [(''status'', PStr ''success''),
                                  (''chart_filename'', PStr chart_filename),
                                  (''chart_info'', info),
                                  (''mime_type'', mime),
                                  (''message'',
                                     PStr (''Chart '' @ quoted chart_filename @ '' loaded successfully''))],
                             ctx1)))))"

definition load_chart_tool ::
  "('a, 'f, 'd, 'g) env \<Rightarrow> string \<Rightarrow> 'a tool_context option \<Rightarrow> result \<times> 'a tool_context option" where
  "load_chart_tool env chart_filename tool_context =
     (case tool_context of
        None \<Rightarrow>
          ([(''status'', PStr ''error''),
            (''message'', PStr ''ToolContext required for artifact access'')], None)
      | Some ctx \<Rightarrow>
          (case load_chart_body env chart_filename ctx of
             (Inl e, ctx') \<Rightarrow>
               ([(''status'', PStr ''error''),
                 (''message'', PStr (''Error loading chart: '' @ exn_str e))], Some ctx')
           | (Inr r, ctx') \<Rightarrow> (r, Some ctx')))"

section \<open>\<^verbatim>\<open>delete_chart_tool\<close>\<close>

text \<open>
  Line 202: \<^verbatim>\<open>[chart for chart in charts_history if chart["filename"] != chart_filename]\<close>,
  which raises at the first record that cannot be subscripted with \<^verbatim>\<open>"filename"\<close>.
\<close>

fun keep_others :: "pyval list \<Rightarrow> string \<Rightarrow> exn + pyval list" where
  "keep_others [] chart_filename = Inr []"
| "keep_others (chart # rest) chart_filename =
     (case py_getitem chart ''filename'' of
        Inl e \<Rightarrow> Inl e
      | Inr name \<Rightarrow>
          (case keep_others rest chart_filename of
             Inl e \<Rightarrow> Inl e
           | Inr kept \<Rightarrow> Inr (if name \<noteq> PStr chart_filename then chart # kept else kept)))"

text \<open>Lines 201 to 215: the body of the \<^verbatim>\<open>try\<close>.\<close>

definition delete_chart_body ::
  "string \<Rightarrow> 'a tool_context \<Rightarrow> (exn + result) \<times> 'a tool_context" where
  "delete_chart_body chart_filename ctx =
     (let charts_history = state_get (state ctx) ''generated_charts'' (PList [])
      in case py_iter charts_history of
           Inl e \<Rightarrow> (Inl e, ctx)
         | Inr charts \<Rightarrow>
             (case keep_others charts chart_filename of
                Inl e \<Rightarrow> (Inl e, ctx)
              | Inr updated_charts \<Rightarrow>
                  (case py_len charts_history of
                     Inl e \<Rightarrow> (Inl e, ctx)
                   | Inr n \<Rightarrow>
                       if length updated_charts = n
                       then (Inr [(''status'', PStr ''warning''),
                                  (''message'',
                                     PStr (''Chart '' @ quoted chart_filename @
                                           '' was not found in tracking history''))],
                             ctx)
                       else (Inr [(''status'', PStr ''success''),
                                  (''message'',
                                     PStr (''Chart '' @ quoted chart_filename @
                                           '' removed from tracking. '' @
                                           show_nat (n - length updated_charts) @
                                           '' chart(s) removed.''))],
                             ctx\<lparr>state := (state ctx)(''generated_charts'' \<mapsto> PList updated_charts)\<rparr>))))"

definition delete_chart_tool ::
  "string \<Rightarrow> 'a tool_context option \<Rightarrow> result \<times> 'a tool_context option" where
  "delete_chart_tool chart_filename tool_context =
     (case tool_context of
        None \<Rightarrow>
          ([(''status'', PStr ''error''),
            (''message'', PStr ''ToolContext required for state management'')], None)
      | Some ctx \<Rightarrow>
          (case delete_chart_body chart_filename ctx of
             (Inl e, ctx') \<Rightarrow>
               ([(''status'', PStr ''error''),
                 (''message'', PStr (''Error deleting chart: '' @ exn_str e))], Some ctx')
           | (Inr r, ctx') \<Rightarrow> (r, Some ctx')))"

section \<open>Well-formed tracking lists\<close>

text \<open>
  A tracked record is a dict with a \<^verbatim>\<open>"filename"\<close> key, as \<^verbatim>\<open>plot_tool\<close> writes it; the
  tracking list is well formed when the state has no \<^verbatim>\<open>"generated_charts"\<close> entry or
  a list of such records.
\<close>

fun has_filename :: "pyval \<Rightarrow> bool" where
  "has_filename (PDict kvs) = (map_of kvs ''filename'' \<noteq> None)"
| "has_filename v = False"

definition tracked :: "(string \<rightharpoonup> pyval) \<Rightarrow> pyval list \<Rightarrow> bool" where
  "tracked st charts =
     (state_get st ''generated_charts'' (PList []) = PList charts \<and> list_all has_filename charts)"

text \<open>Whether a record's \<^verbatim>\<open>filename\<close> is the given string.\<close>

definition named :: "string \<Rightarrow> pyval \<Rightarrow> bool" where
  "named chart_filename chart = (py_getitem chart ''filename'' = Inr (PStr chart_filename))"

section \<open>An in-memory environment for concrete runs\<close>

text \<open>
  Stand-ins for the collaborators, used to run the tools on concrete inputs. The
  artifact store is the list of saved (name, part) pairs, oldest first: a save returns
  the number of earlier versions of the name, a load the latest version. The
  filesystem is the list of directories made and of files written. A data frame is
  built from a dict of columns; a chart function rejects a column that the frame does
  not have with a \<^verbatim>\<open>ValueError\<close>, as plotly express does. The parser knows the documents
  of \<open>demo_docs\<close> and rejects every other string.
\<close>

type_synonym demo_store = "(string \<times> part) list"

type_synonym demo_fs = "string list \<times> string list"

type_synonym demo_frame = "(string \<times> pyval) list"

datatype demo_figure =
  Figure (fig_kind: string) (fig_frame: demo_frame) (fig_x: pyval) (fig_y: pyval)
         (fig_title: string) (fig_layout: "(nat \<times> string \<times> string \<times> string) option")

definition doc_ab :: string where
  \<open>doc_ab = ''{"df": {"day": [1, 2, 3], "total_sales": [10, 20, 15]}, "x_col": "day", "y_col": "total_sales"}''\<close>

definition doc_missing_col :: string where
  \<open>doc_missing_col = ''{"df": {"day": [1, 2, 3]}, "x_col": "week", "y_col": "day"}''\<close>

definition doc_no_y :: string where
  \<open>doc_no_y = ''{"df": {"day": [1, 2, 3]}, "x_col": "day"}''\<close>

definition demo_docs :: "(string \<times> pyval) list" where
  "demo_docs =
     [(doc_ab,
       PDict [(''df'', PDict [(''day'', PList [PInt 1, PInt 2, PInt 3]),
                              (''total_sales'', PList [PInt 10, PInt 20, PInt 15])]),
              (''x_col'', PStr ''day''), (''y_col'', PStr ''total_sales'')]),
      (doc_missing_col,
       PDict [(''df'', PDict [(''day'', PList [PInt 1, PInt 2, PInt 3])]),
              (''x_col'', PStr ''week''), (''y_col'', PStr ''day'')]),
      (doc_no_y,
       PDict [(''df'', PDict [(''day'', PList [PInt 1, PInt 2, PInt 3])]),
              (''x_col'', PStr ''day'')])]"

definition demo_loads :: "string \<Rightarrow> exn + pyval" where
  "demo_loads s =
     (case map_of demo_docs s of
        Some v \<Rightarrow> Inr v
      | None \<Rightarrow> Inl (JSONDecodeError ''Expecting value: line 1 column 1 (char 0)''))"

fun demo_str_of :: "pyval \<Rightarrow> string" where
  "demo_str_of PNone = ''None''"
| "demo_str_of (PBool b) = (if b then ''True'' else ''False'')"
| "demo_str_of (PInt i) = (if i < 0 then ''-'' @ show_nat (nat (- i)) else show_nat (nat i))"
| "demo_str_of (PFloat r) = r"
| "demo_str_of (PStr s) = s"
| "demo_str_of v = ''<'' @ type_name v @ ''>''"

text \<open>
  The stand-in for \<^verbatim>\<open>str.title()\<close> cases the letters of ASCII and leaves every other
  character alone, which is what \<^verbatim>\<open>str.title()\<close> does on an ASCII string.
\<close>

definition ascii_lowercase :: string where
  "ascii_lowercase = ''abcdefghijklmnopqrstuvwxyz''"

definition ascii_uppercase :: string where
  "ascii_uppercase = ''ABCDEFGHIJKLMNOPQRSTUVWXYZ''"

definition is_lower :: "char \<Rightarrow> bool" where
  "is_lower c = (c \<in> set ascii_lowercase)"

definition is_upper :: "char \<Rightarrow> bool" where
  "is_upper c = (c \<in> set ascii_uppercase)"

definition to_upper :: "char \<Rightarrow> char" where
  "to_upper c = (case map_of (zip ascii_lowercase ascii_uppercase) c of None \<Rightarrow> c | Some u \<Rightarrow> u)"

definition to_lower :: "char \<Rightarrow> char" where
  "to_lower c = (case map_of (zip ascii_uppercase ascii_lowercase) c of None \<Rightarrow> c | Some l \<Rightarrow> l)"

fun demo_title_from :: "bool \<Rightarrow> string \<Rightarrow> string" where
  "demo_title_from prev_cased [] = []"
| "demo_title_from prev_cased (c # cs) =
     (if is_lower c \<or> is_upper c
      then (if prev_cased then to_lower c else to_upper c) # demo_title_from True cs
      else c # demo_title_from False cs)"

definition demo_title :: "string \<Rightarrow> string" where
  "demo_title s = demo_title_from False s"

fun demo_DataFrame :: "pyval \<Rightarrow> exn + demo_frame" where
  "demo_DataFrame (PDict cols) = Inr cols"
| "demo_DataFrame v = Inl (ValueError ''DataFrame constructor not properly called!'')"

definition demo_columns :: "demo_frame \<Rightarrow> pyval list" where
  "demo_columns df = map (\<lambda>kv. PStr (fst kv)) df"

fun comma_join :: "string list \<Rightarrow> string" where
  "comma_join [] = []"
| "comma_join [s] = s"
| "comma_join (s # t # rest) = s @ '', '' @ comma_join (t # rest)"

definition not_a_column :: "string \<Rightarrow> demo_frame \<Rightarrow> pyval \<Rightarrow> exn" where
  "not_a_column arg df v =
     ValueError (''Value of '' @ quoted arg @ '' is not the name of a column in '' @
                 quoted ''data_frame'' @ ''. Expected one of ['' @
                 comma_join (map (\<lambda>kv. quoted (fst kv)) df) @ ''] but received: '' @
                 demo_str_of v)"

definition demo_px :: "string \<Rightarrow> demo_frame \<Rightarrow> pyval \<Rightarrow> pyval \<Rightarrow> string \<Rightarrow> exn + demo_figure" where
  "demo_px kind df x y title =
     (if x \<notin> set (demo_columns df) then Inl (not_a_column ''x'' df x)
      else if y \<notin> set (demo_columns df) then Inl (not_a_column ''y'' df y)
      else Inr (Figure kind df x y title None))"

definition demo_update_layout ::
  "demo_figure \<Rightarrow> nat \<Rightarrow> string \<Rightarrow> string \<Rightarrow> string \<Rightarrow> exn + demo_figure" where
  "demo_update_layout fig font_size xt yt template =
     Inr (Figure (fig_kind fig) (fig_frame fig) (fig_x fig) (fig_y fig) (fig_title fig)
            (Some (font_size, xt, yt, template)))"

definition demo_now :: datetime where
  "demo_now = \<lparr>year = 2024, month = 3, day = 5, hour = 14, minute = 7, second = 9\<rparr>"

definition demo_to_image :: "demo_figure \<Rightarrow> string \<Rightarrow> nat \<Rightarrow> nat \<Rightarrow> nat \<Rightarrow> exn + nat list" where
  "demo_to_image fig format width height scale = Inr [137, 80, 78, 71, 13, 10, 26, 10]"

definition demo_save_artifact :: "demo_store \<Rightarrow> string \<Rightarrow> part \<Rightarrow> (exn + int) \<times> demo_store" where
  "demo_save_artifact store name p =
     (Inr (int (length (filter (\<lambda>e. fst e = name) store))), store @ [(name, p)])"

definition demo_list_artifacts :: "demo_store \<Rightarrow> (exn + string list) \<times> demo_store" where
  "demo_list_artifacts store = (Inr (remdups (map fst store)), store)"

definition demo_load_artifact :: "demo_store \<Rightarrow> string \<Rightarrow> (exn + part option) \<times> demo_store" where
  "demo_load_artifact store name = (Inr (map_of (rev store) name), store)"

definition demo_makedirs :: "demo_fs \<Rightarrow> string \<Rightarrow> bool \<Rightarrow> exn option \<times> demo_fs" where
  "demo_makedirs fs dir exist_ok =
     (if dir \<in> set (fst fs)
      then (if exist_ok then (None, fs) else (Some (OtherError ''FileExistsError'' dir), fs))
      else (None, (fst fs @ [dir], snd fs)))"

definition demo_write_image ::
  "demo_fs \<Rightarrow> demo_figure \<Rightarrow> string \<Rightarrow> nat \<Rightarrow> nat \<Rightarrow> nat \<Rightarrow> exn option \<times> demo_fs" where
  "demo_write_image fs fig path width height scale = (None, (fst fs, snd fs @ [path]))"

definition demo_env :: "(demo_store, demo_fs, demo_frame, demo_figure) env" where
  "demo_env =
     \<lparr>json_loads = demo_loads, str_of = demo_str_of, str_title = demo_title,
      DataFrame = demo_DataFrame,
      columns = demo_columns, px_line = demo_px ''line'', px_bar = demo_px ''bar'',
      px_scatter = demo_px ''scatter'', px_area = demo_px ''area'',
      update_layout = demo_update_layout, now = demo_now, to_image = demo_to_image,
      save_artifact = demo_save_artifact, list_artifacts = demo_list_artifacts,
      load_artifact = demo_load_artifact, makedirs = demo_makedirs,
      write_image = demo_write_image\<rparr>"

text \<open>A session with no artifact and an empty state, and an empty filesystem.\<close>

definition demo_ctx :: "demo_store tool_context" where
  "demo_ctx = \<lparr>artifacts = [], state = Map.empty\<rparr>"

definition demo_fs0 :: demo_fs where
  "demo_fs0 = ([], [])"

text \<open>
  The session after one bar chart of \<open>doc_ab\<close> was rendered at \<open>demo_now\<close> and a text
  note was stored beside it.
\<close>

definition demo_png :: part where
  "demo_png = Part_from_bytes [137, 80, 78, 71, 13, 10, 26, 10] ''image/png''"

definition demo_record :: pyval where
  "demo_record =
     chart_info ''bar_total_sales_vs_day_20240305_140709.png'' ''bar''
       (PStr ''day'') (PStr ''total_sales'') ''20240305_140709'' 0"

definition demo_ctx1 :: "demo_store tool_context" where
  "demo_ctx1 =
     \<lparr>artifacts = [(''bar_total_sales_vs_day_20240305_140709.png'', demo_png),
                   (''notes.txt'', Part None)],
      state = [''generated_charts'' \<mapsto> PList [demo_record]]\<rparr>"

section \<open>Unfolding rules and concrete runs\<close>

lemmas tool_defs =
  plot_tool_def plot_tool_body_def parse_params_def build_figure_def create_chart_def
  make_filename_def save_as_artifact_def save_as_file_def py_str_def state_get_def
  chart_info_def Part_from_bytes_def path_join_def

lemmas demo_defs =
  demo_env_def demo_loads_def demo_docs_def doc_ab_def doc_missing_col_def doc_no_y_def
  demo_columns_def demo_px_def demo_update_layout_def demo_now_def demo_to_image_def
  demo_save_artifact_def demo_list_artifacts_def demo_load_artifact_def demo_makedirs_def
  demo_write_image_def demo_ctx_def demo_fs0_def not_a_column_def quoted_def
  demo_png_def demo_record_def demo_ctx1_def

lemmas run_defs =
  tool_defs demo_defs strftime_Ymd_HMS_def zero_pad_def show_nat.simps digit_char_def
  demo_title_def replace_underscores_def is_lower_def is_upper_def to_upper_def to_lower_def
  ascii_lowercase_def ascii_uppercase_def Let_def

lemma demo_now_env: "now demo_env = demo_now"
  by (simp add: demo_env_def)

lemma demo_env_store:
  "to_image demo_env = demo_to_image" "save_artifact demo_env = demo_save_artifact"
  "list_artifacts demo_env = demo_list_artifacts" "load_artifact demo_env = demo_load_artifact"
  by (simp_all add: demo_env_def)

lemma demo_strftime: "strftime_Ymd_HMS demo_now = ''20240305_140709''"
  by (simp add: strftime_Ymd_HMS_def demo_now_def zero_pad_def show_nat.simps digit_char_def)

lemma demo_parse_ab:
  "parse_params demo_env doc_ab =
     Inr (PDict [(''day'', PList [PInt 1, PInt 2, PInt 3]),
                 (''total_sales'', PList [PInt 10, PInt 20, PInt 15])],
          PStr ''day'', PStr ''total_sales'')"
  by (simp add: parse_params_def demo_env_def demo_loads_def demo_docs_def doc_ab_def)

lemma demo_missing_col_body:
  "plot_tool_body demo_env doc_missing_col ''line'' ''charts'' None demo_fs0 =
     (Inl (not_a_column ''x'' [(''day'', PList [PInt 1, PInt 2, PInt 3])] (PStr ''week'')),
      None, demo_fs0)"
  by (simp add: run_defs)

lemma demo_tracked: "tracked (state demo_ctx1) [demo_record]"
  by (simp add: tracked_def state_get_def demo_ctx1_def demo_record_def chart_info_def)

section \<open>Decimal digits and the timestamp\<close>

lemma digit_nth:
  assumes "k < 10"
  shows "is_digit (''0123456789'' ! k)"
proof -
  from assms have "k = 0 \<or> k = 1 \<or> k = 2 \<or> k = 3 \<or> k = 4 \<or> k = 5 \<or> k = 6 \<or> k = 7 \<or> k = 8 \<or> k = 9"
    by presburger
  then show ?thesis
    by (elim disjE) (simp_all add: is_digit_def)
qed

lemma digit_value:
  assumes "k < 10"
  shows "(of_char (''0123456789'' ! k) :: nat) - 48 = k"
proof -
  from assms have "k = 0 \<or> k = 1 \<or> k = 2 \<or> k = 3 \<or> k = 4 \<or> k = 5 \<or> k = 6 \<or> k = 7 \<or> k = 8 \<or> k = 9"
    by presburger
  then show ?thesis
    by (elim disjE) simp_all
qed

lemma digit_char_is_digit: "is_digit (digit_char d)"
  by (simp add: digit_char_def digit_nth)

lemma show_nat_digits: "list_all is_digit (show_nat n)"
proof (induction n rule: show_nat.induct)
  case (1 n)
  then show ?case
    by (subst show_nat.simps) (simp add: digit_char_is_digit)
qed

lemma show_nat_length: "n < 10 ^ k \<Longrightarrow> 0 < k \<Longrightarrow> length (show_nat n) \<le> k"
proof (induction n arbitrary: k rule: show_nat.induct)
  case (1 n)
  show ?case
  proof (cases "n < 10")
    case True
    with 1 show ?thesis by (subst show_nat.simps) simp
  next
    case False
    from 1(3) obtain j where k: "k = Suc j" by (cases k) auto
    from False 1(2) k have "0 < j" by (cases j) auto
    moreover from 1(2) k have "n div 10 < 10 ^ j"
      by (simp add: less_mult_imp_div_less mult.commute)
    ultimately have "length (show_nat (n div 10)) \<le> j" using 1(1) [OF False] by simp
    with False k show ?thesis by (subst show_nat.simps) simp
  qed
qed

lemma show_nat_length_4: "1000 \<le> n \<Longrightarrow> n \<le> 9999 \<Longrightarrow> length (show_nat n) \<le> 4"
  using show_nat_length [of n 4] by simp

lemma show_nat_length_2: "n \<le> 59 \<Longrightarrow> length (show_nat n) \<le> 2"
  using show_nat_length [of n 2] by simp

lemma zero_pad_length: "length s \<le> w \<Longrightarrow> length (zero_pad w s) = w"
  by (simp add: zero_pad_def)

lemma zero_pad_digits: "list_all is_digit s \<Longrightarrow> list_all is_digit (zero_pad w s)"
  by (auto simp: zero_pad_def is_digit_def list_all_iff)

lemma read_nat_snoc: "read_nat (s @ [c]) = 10 * read_nat s + ((of_char c :: nat) - 48)"
  by (simp add: read_nat_def)

lemma read_show_nat: "read_nat (show_nat n) = n"
proof (induction n rule: show_nat.induct)
  case (1 n)
  show ?case
  proof (cases "n < 10")
    case True
    then show ?thesis
      by (subst show_nat.simps) (simp add: read_nat_def digit_char_def digit_value)
  next
    case False
    with 1 have "read_nat (show_nat (n div 10)) = n div 10" by simp
    with False show ?thesis
      by (subst show_nat.simps) (simp add: read_nat_snoc digit_char_def digit_value)
  qed
qed

lemma read_nat_zeros: "read_nat (replicate k CHR ''0'' @ s) = read_nat s"
proof -
  have "foldl (\<lambda>acc c. 10 * acc + ((of_char c :: nat) - 48)) 0 (replicate k CHR ''0'') = 0"
    by (induction k) simp_all
  then show ?thesis by (simp add: read_nat_def)
qed

lemma read_zero_pad: "read_nat (zero_pad w (show_nat n)) = n"
  by (simp add: zero_pad_def read_nat_zeros read_show_nat)

text \<open>The six fields of a formatted timestamp, with their widths.\<close>

lemma strftime_fields:
  assumes "valid_datetime t"
  obtains Y m d H M S where
    "strftime_Ymd_HMS t = Y @ m @ d @ CHR ''_'' # H @ M @ S"
    "length Y = 4" "length m = 2" "length d = 2" "length H = 2" "length M = 2" "length S = 2"
    "list_all is_digit Y" "list_all is_digit m" "list_all is_digit d"
    "list_all is_digit H" "list_all is_digit M" "list_all is_digit S"
    "read_nat Y = year t" "read_nat m = month t" "read_nat d = day t"
    "read_nat H = hour t" "read_nat M = minute t" "read_nat S = second t"
proof
  show "strftime_Ymd_HMS t =
      zero_pad 4 (show_nat (year t)) @ zero_pad 2 (show_nat (month t)) @
      zero_pad 2 (show_nat (day t)) @ CHR ''_'' #
      zero_pad 2 (show_nat (hour t)) @ zero_pad 2 (show_nat (minute t)) @
      zero_pad 2 (show_nat (second t))"
    by (simp add: strftime_Ymd_HMS_def)
qed (use assms in \<open>simp_all add: valid_datetime_def zero_pad_length show_nat_length_4
      show_nat_length_2 zero_pad_digits show_nat_digits read_zero_pad\<close>)

lemma strftime_shape:
  assumes "valid_datetime t"
  shows "timestamp_shape (strftime_Ymd_HMS t)"
proof -
  from assms obtain Y m d H M S where
    ts: "strftime_Ymd_HMS t = Y @ m @ d @ CHR ''_'' # H @ M @ S" and
    len: "length Y = 4" "length m = 2" "length d = 2" "length H = 2" "length M = 2" "length S = 2" and
    dig: "list_all is_digit Y" "list_all is_digit m" "list_all is_digit d"
      "list_all is_digit H" "list_all is_digit M" "list_all is_digit S"
    by (rule strftime_fields)
  define P where "P = Y @ m @ d"
  define R where "R = H @ M @ S"
  have ts': "strftime_Ymd_HMS t = P @ CHR ''_'' # R"
    by (simp add: ts P_def R_def)
  have lP: "length P = 8" and lR: "length R = 6"
    using len by (simp_all add: P_def R_def)
  have "take 8 (strftime_Ymd_HMS t) = P"
    unfolding ts' using lP by simp
  moreover have "drop 9 (strftime_Ymd_HMS t) = R"
    unfolding ts' using lP by simp
  moreover have "strftime_Ymd_HMS t ! 8 = CHR ''_''"
    unfolding ts' using lP by (simp add: nth_append)
  moreover have "length (strftime_Ymd_HMS t) = 15"
    unfolding ts' using lP lR by simp
  moreover have "list_all is_digit P" "list_all is_digit R"
    using dig by (simp_all add: P_def R_def)
  ultimately show ?thesis
    by (simp add: timestamp_shape_def)
qed

lemma strftime_read_back:
  assumes "valid_datetime t"
  shows "read_Ymd_HMS (strftime_Ymd_HMS t) = t"
proof -
  from assms obtain Y m d H M S where
    ts: "strftime_Ymd_HMS t = Y @ m @ d @ CHR ''_'' # H @ M @ S" and
    len: "length Y = 4" "length m = 2" "length d = 2" "length H = 2" "length M = 2" "length S = 2" and
    rd: "read_nat Y = year t" "read_nat m = month t" "read_nat d = day t"
      "read_nat H = hour t" "read_nat M = minute t" "read_nat S = second t"
    by (rule strftime_fields)
  have "take 4 (strftime_Ymd_HMS t) = Y" "take 2 (drop 4 (strftime_Ymd_HMS t)) = m"
    "take 2 (drop 6 (strftime_Ymd_HMS t)) = d" "take 2 (drop 9 (strftime_Ymd_HMS t)) = H"
    "take 2 (drop 11 (strftime_Ymd_HMS t)) = M" "take 2 (drop 13 (strftime_Ymd_HMS t)) = S"
    unfolding ts using len by simp_all
  then show ?thesis
    by (simp add: read_Ymd_HMS_def rd)
qed

section \<open>Results of the tools\<close>

lemma plot_tool_except_status: "status (plot_tool_except e) = Some (PStr ''error'')"
  by (cases e) (simp_all add: status_def)

lemma plot_tool_except_generic:
  "(\<forall>m. e \<noteq> JSONDecodeError m) \<Longrightarrow> (\<forall>m. e \<noteq> KeyError m) \<Longrightarrow>
   plot_tool_except e =
     [(''status'', PStr ''error''), (''message'', PStr (''Error generating chart: '' @ exn_str e))]"
  by (cases e) simp_all

lemma save_as_artifact_status:
  "save_as_artifact env fig filename chart_type x_col y_col ts ctx = (Inr r, ctx') \<Longrightarrow>
   status r = Some (PStr ''success'')"
  by (auto simp: save_as_artifact_def status_def Let_def split: sum.splits prod.splits)

lemma save_as_file_status:
  "save_as_file env fig filename chart_type save_folder fs = (Inr r, fs') \<Longrightarrow>
   status r = Some (PStr ''success'')"
  by (auto simp: save_as_file_def status_def Let_def split: option.splits prod.splits)

lemma plot_tool_body_status:
  "plot_tool_body env params chart_type save_folder tool_context fs = (Inr r, w) \<Longrightarrow>
   status r = Some (PStr ''success'')"
  by (auto simp: plot_tool_body_def Let_def
      split: sum.splits prod.splits option.splits
      dest: save_as_artifact_status save_as_file_status)

lemma plot_tool_status:
  "status (fst (plot_tool env params chart_type save_folder tool_context fs)) \<in>
     {Some (PStr ''success''), Some (PStr ''error'')}"
  by (auto simp: plot_tool_def plot_tool_except_status
      split: sum.splits prod.splits dest: plot_tool_body_status)

lemma list_charts_status:
  "status (fst (list_charts_tool env tool_context)) \<in>
     {Some (PStr ''success''), Some (PStr ''error'')}"
  by (auto simp: list_charts_tool_def status_def Let_def split: sum.splits prod.splits option.splits)

lemma load_chart_status:
  "status (fst (load_chart_tool env chart_filename tool_context)) \<in>
     {Some (PStr ''success''), Some (PStr ''error'')}"
  by (auto simp: load_chart_tool_def load_chart_body_def status_def Let_def
      split: sum.splits prod.splits option.splits)

lemma delete_chart_status:
  "status (fst (delete_chart_tool chart_filename tool_context)) \<in>
     {Some (PStr ''success''), Some (PStr ''warning''), Some (PStr ''error'')}"
  by (auto simp: delete_chart_tool_def delete_chart_body_def status_def Let_def
      split: sum.splits prod.splits option.splits if_splits)

text \<open>What a successful artifact branch did.\<close>

lemma save_as_artifact_success:
  assumes "save_as_artifact env fig filename chart_type x_col y_col ts ctx = (Inr r, ctx')"
  shows "\<exists>img version store' charts.
      to_image env fig ''png'' 800 600 2 = Inr img \<and>
      save_artifact env (artifacts ctx) filename (Part_from_bytes img ''image/png'') =
        (Inr version, store') \<and>
      state_get (state ctx) ''generated_charts'' (PList []) = PList charts \<and>
      ctx' = ctx\<lparr>artifacts := store',
                 state := (state ctx)(''generated_charts'' \<mapsto>
                   PList (charts @ [chart_info filename chart_type x_col y_col ts version]))\<rparr> \<and>
      r = [(''status'', PStr ''success''),
           (''artifact_name'', PStr filename),
           (''version'', PInt version),
           (''chart_type'', PStr chart_type),
           (''message'', PStr (''Chart saved as artifact: '' @ filename))]"
proof -
  from assms obtain img where img: "to_image env fig ''png'' 800 600 2 = Inr img"
    by (auto simp: save_as_artifact_def split: sum.splits)
  obtain sr store' where sv:
    "save_artifact env (artifacts ctx) filename (Part_from_bytes img ''image/png'') = (sr, store')"
    by (cases "save_artifact env (artifacts ctx) filename (Part_from_bytes img ''image/png'')")
  with assms img obtain version where v: "sr = Inr version"
    by (cases sr) (auto simp: save_as_artifact_def)
  define old where "old = state_get (state ctx) ''generated_charts'' (PList [])"
  from assms img sv v obtain charts where c: "old = PList charts"
    by (cases old) (auto simp: save_as_artifact_def Let_def old_def)
  from assms img sv v c show ?thesis
    by (auto simp: save_as_artifact_def Let_def old_def)
qed

text \<open>A result with status \<^verbatim>\<open>success\<close> comes from the end of one of the two branches.\<close>

lemma plot_tool_success:
  assumes "plot_tool env params chart_type save_folder tool_context fs = (r, w)"
    and "status r = Some (PStr ''success'')"
  shows "\<exists>df_data x_col y_col fig.
      parse_params env params = Inr (df_data, x_col, y_col) \<and>
      build_figure env chart_type df_data x_col y_col = Inr fig \<and>
      (case tool_context of
         Some ctx \<Rightarrow>
           \<exists>ctx'. save_as_artifact env fig
                    (make_filename env chart_type x_col y_col (strftime_Ymd_HMS (now env)))
                    chart_type x_col y_col (strftime_Ymd_HMS (now env)) ctx = (Inr r, ctx') \<and>
                 w = (Some ctx', fs)
       | None \<Rightarrow>
           \<exists>fs'. save_as_file env fig
                   (make_filename env chart_type x_col y_col (strftime_Ymd_HMS (now env)))
                   chart_type save_folder fs = (Inr r, fs') \<and>
                 w = (None, fs'))"
proof -
  obtain b w0 where body: "plot_tool_body env params chart_type save_folder tool_context fs = (b, w0)"
    by (cases "plot_tool_body env params chart_type save_folder tool_context fs")
  have b: "b = Inr r"
  proof (cases b)
    case (Inl e)
    with body assms(1) have "r = plot_tool_except e" by (simp add: plot_tool_def)
    with assms(2) show ?thesis by (simp add: plot_tool_except_status)
  next
    case (Inr r')
    with body assms(1) show ?thesis by (simp add: plot_tool_def)
  qed
  from body assms(1) have w: "w0 = w"
    by (cases b) (simp_all add: plot_tool_def)
  from body b w show ?thesis
    by (auto simp: plot_tool_body_def Let_def split: sum.splits prod.splits option.splits)
qed

lemma endswith_path_join: "endswith (path_join a b) b"
  by (simp add: endswith_def path_join_def)

lemma axis_title_str: "axis_title env v = Inr t \<Longrightarrow> \<exists>s. v = PStr s"
  by (cases v) simp_all

lemma build_figure_str:
  assumes "build_figure env chart_type df_data x_col y_col = Inr fig"
  shows "\<exists>x y. x_col = PStr x \<and> y_col = PStr y"
  using assms
  by (auto simp: build_figure_def split: sum.splits dest!: axis_title_str)

text \<open>
  Where the message \<^verbatim>\<open>Missing key in JSON data\<close> does come from: a JSON object that
  lacks one of the three keys.
\<close>

lemma plot_tool_missing_json_key:
  assumes "json_loads env params = Inr (PDict kvs)"
    and "map_of kvs ''df'' = None \<or> map_of kvs ''x_col'' = None \<or> map_of kvs ''y_col'' = None"
  shows "\<exists>k \<in> {''df'', ''x_col'', ''y_col''}.
           plot_tool env params chart_type save_folder tool_context fs =
             ([(''status'', PStr ''error''),
               (''message'', PStr (''Missing key in JSON data: '' @ quoted k))],
              tool_context, fs)"
  using assms
  by (auto simp: plot_tool_def plot_tool_body_def parse_params_def split: option.splits)

lemma demo_missing_json_key:
  "plot_tool demo_env doc_no_y ''line'' ''charts'' None demo_fs0 =
     ([(''status'', PStr ''error''),
       (''message'', PStr (''Missing key in JSON data: '' @ quoted ''y_col''))],
      None, demo_fs0)"
  by (simp add: run_defs)

section \<open>Well-formed tracking lists\<close>

lemma keep_others_tracked:
  "list_all has_filename charts \<Longrightarrow>
   keep_others charts chart_filename = Inr (filter (\<lambda>c. \<not> named chart_filename c) charts)"
proof (induction charts)
  case Nil
  then show ?case by simp
next
  case (Cons c cs)
  then obtain kvs v where c: "c = PDict kvs" "map_of kvs ''filename'' = Some v"
    by (cases c) auto
  with Cons show ?case by (auto simp: named_def)
qed

lemma find_chart_tracked:
  "list_all has_filename charts \<Longrightarrow>
   find_chart charts chart_filename =
     Inr (case List.find (named chart_filename) charts of None \<Rightarrow> PNone | Some c \<Rightarrow> c)"
proof (induction charts)
  case Nil
  then show ?case by simp
next
  case (Cons c cs)
  then obtain kvs v where c: "c = PDict kvs" "map_of kvs ''filename'' = Some v"
    by (cases c) auto
  with Cons show ?case by (auto simp: named_def)
qed

lemma length_filter_split:
  "length xs - length (filter (\<lambda>c. \<not> P c) xs) = length (filter P xs)"
  using sum_length_filter_compl [of P xs] by simp

lemma filter_not_all: "(length (filter (\<lambda>c. \<not> P c) xs) = length xs) = (filter P xs = [])"
  using sum_length_filter_compl [of P xs] by (auto simp: filter_empty_conv)

lemma delete_chart_body_tracked:
  assumes "tracked (state ctx) charts"
  shows "delete_chart_body chart_filename ctx =
     (if filter (named chart_filename) charts = []
      then (Inr [(''status'', PStr ''warning''),
                 (''message'', PStr (''Chart '' @ quoted chart_filename @
                                     '' was not found in tracking history''))],
            ctx)
      else (Inr [(''status'', PStr ''success''),
                 (''message'', PStr (''Chart '' @ quoted chart_filename @
                                     '' removed from tracking. '' @
                                     show_nat (length (filter (named chart_filename) charts)) @
                                     '' chart(s) removed.''))],
            ctx\<lparr>state := (state ctx)(''generated_charts'' \<mapsto>
                     PList (filter (\<lambda>c. \<not> named chart_filename c) charts))\<rparr>))"
proof -
  from assms have g: "state_get (state ctx) ''generated_charts'' (PList []) = PList charts"
    and wf: "list_all has_filename charts"
    by (simp_all add: tracked_def)
  show ?thesis
    by (simp add: delete_chart_body_def g keep_others_tracked [OF wf]
        length_filter_split filter_not_all)
qed

text \<open>
  The two tools that write the tracking list keep it well formed: \<^verbatim>\<open>plot_tool\<close> appends
  a record with a \<^verbatim>\<open>filename\<close> or leaves the list alone, \<^verbatim>\<open>delete_chart_tool\<close> keeps
  a sublist.
\<close>

lemma has_filename_chart_info:
  "has_filename (chart_info filename chart_type x_col y_col ts version)"
  by (simp add: chart_info_def)

lemma save_as_artifact_state:
  assumes "save_as_artifact env fig filename chart_type x_col y_col ts ctx = (res, ctx')"
  shows "state ctx' = state ctx \<or>
         (\<exists>charts version.
            state_get (state ctx) ''generated_charts'' (PList []) = PList charts \<and>
            state ctx' = (state ctx)(''generated_charts'' \<mapsto>
              PList (charts @ [chart_info filename chart_type x_col y_col ts version])))"
proof (cases res)
  case (Inl e)
  with assms have "state ctx' = state ctx"
    by (auto simp: save_as_artifact_def Let_def split: sum.splits prod.splits)
  then show ?thesis by simp
next
  case (Inr r)
  with assms save_as_artifact_success [of env fig filename chart_type x_col y_col ts ctx r ctx']
  show ?thesis by auto
qed

lemma plot_tool_keeps_tracked:
  assumes "tracked (state ctx) charts"
    and "plot_tool env params chart_type save_folder (Some ctx) fs = (r, Some ctx', fs')"
  shows "\<exists>charts'. tracked (state ctx') charts'"
proof -
  from assms(2) obtain b where
    body: "plot_tool_body env params chart_type save_folder (Some ctx) fs = (b, Some ctx', fs')"
    by (auto simp: plot_tool_def split: sum.splits prod.splits)
  then have "ctx' = ctx \<or>
     (\<exists>fig filename x_col y_col ts res.
        save_as_artifact env fig filename chart_type x_col y_col ts ctx = (res, ctx'))"
    by (auto simp: plot_tool_body_def Let_def split: sum.splits prod.splits)
  then show ?thesis
  proof
    assume "ctx' = ctx"
    with assms(1) show ?thesis by blast
  next
    assume "\<exists>fig filename x_col y_col ts res.
        save_as_artifact env fig filename chart_type x_col y_col ts ctx = (res, ctx')"
    then obtain fig filename x_col y_col ts res where
      "save_as_artifact env fig filename chart_type x_col y_col ts ctx = (res, ctx')"
      by blast
    from save_as_artifact_state [OF this] show ?thesis
    proof
      assume "state ctx' = state ctx"
      with assms(1) show ?thesis by auto
    next
      assume "\<exists>cs version.
            state_get (state ctx) ''generated_charts'' (PList []) = PList cs \<and>
            state ctx' = (state ctx)(''generated_charts'' \<mapsto>
              PList (cs @ [chart_info filename chart_type x_col y_col ts version]))"
      then obtain cs version where
        cs: "state_get (state ctx) ''generated_charts'' (PList []) = PList cs" and
        st: "state ctx' = (state ctx)(''generated_charts'' \<mapsto>
              PList (cs @ [chart_info filename chart_type x_col y_col ts version]))"
        by blast
      from cs assms(1) have "cs = charts" by (simp add: tracked_def)
      with st assms(1)
      have "tracked (state ctx') (charts @ [chart_info filename chart_type x_col y_col ts version])"
        by (simp add: tracked_def state_get_def has_filename_chart_info)
      then show ?thesis by blast
    qed
  qed
qed

lemma delete_chart_keeps_tracked:
  assumes "tracked (state ctx) charts"
    and "delete_chart_tool chart_filename (Some ctx) = (r, Some ctx')"
  shows "\<exists>charts'. tracked (state ctx') charts'"
proof -
  have "list_all has_filename (filter (\<lambda>c. \<not> named chart_filename c) charts)"
    using assms(1) by (simp add: tracked_def list_all_iff)
  with assms show ?thesis
    by (auto simp: delete_chart_tool_def delete_chart_body_tracked [OF assms(1)]
        tracked_def state_get_def split: if_splits)
qed

section \<open>A column that the data frame does not have\<close>

text \<open>
  Claim C1, as the code has it. \<^verbatim>\<open>plot_tool\<close> never compares \<^verbatim>\<open>x_col\<close> or \<^verbatim>\<open>y_col\<close> with
  the columns of the data frame: it hands them to the chart function. When \<^verbatim>\<open>params\<close>
  parses with its three keys, the data frame is built, \<^verbatim>\<open>x_col\<close> or \<^verbatim>\<open>y_col\<close> is not
  among its columns and the chart function raises an exception \<open>e\<close>, \<^verbatim>\<open>plot_tool\<close>
  returns an error result and leaves the context and the filesystem as they were.
  The message is chosen by the class of \<open>e\<close> alone: \<^verbatim>\<open>Missing key in JSON data: \<close>
  followed by \<^verbatim>\<open>str(e)\<close> for a \<^verbatim>\<open>KeyError\<close>, and \<^verbatim>\<open>Error generating chart: \<close> followed by
  \<^verbatim>\<open>str(e)\<close> for every exception that is neither a \<^verbatim>\<open>KeyError\<close> nor a
  \<^verbatim>\<open>JSONDecodeError\<close>.
\<close>

theorem plot_tool_chart_rejected:
  assumes "parse_params env params = Inr (df_data, x_col, y_col)"
    and "DataFrame env df_data = Inr df"
    and "x_col \<notin> set (columns env df) \<or> y_col \<notin> set (columns env df)"
    and "create_chart env chart_type df x_col y_col = Inl e"
  shows "plot_tool env params chart_type save_folder tool_context fs =
           (plot_tool_except e, tool_context, fs) \<and>
         status (plot_tool_except e) = Some (PStr ''error'') \<and>
         message (plot_tool_except e) =
           Some (PStr (case e of
                         JSONDecodeError m \<Rightarrow> ''Invalid JSON format in params''
                       | KeyError m \<Rightarrow> ''Missing key in JSON data: '' @ m
                       | _ \<Rightarrow> ''Error generating chart: '' @ exn_str e))"
proof -
  from assms(2,4) have "build_figure env chart_type df_data x_col y_col = Inl e"
    by (simp add: build_figure_def)
  with assms(1) have "plot_tool env params chart_type save_folder tool_context fs =
           (plot_tool_except e, tool_context, fs)"
    by (simp add: plot_tool_def plot_tool_body_def)
  moreover have "message (plot_tool_except e) =
           Some (PStr (case e of
                         JSONDecodeError m \<Rightarrow> ''Invalid JSON format in params''
                       | KeyError m \<Rightarrow> ''Missing key in JSON data: '' @ m
                       | _ \<Rightarrow> ''Error generating chart: '' @ exn_str e))"
    by (cases e) (simp_all add: message_def)
  ultimately show ?thesis
    by (simp add: plot_tool_except_status)
qed

theorem plot_tool_chart_rejected_witness:
  "plot_tool demo_env doc_missing_col ''bar'' ''charts'' (Some demo_ctx) demo_fs0 =
     ([(''status'', PStr ''error''),
       (''message'', PStr (''Error generating chart: Value of '' @ quoted ''x'' @
          '' is not the name of a column in '' @ quoted ''data_frame'' @
          ''. Expected one of ['' @ quoted ''day'' @ ''] but received: week''))],
      Some demo_ctx, demo_fs0)"
proof -
  have "plot_tool demo_env doc_missing_col ''bar'' ''charts'' (Some demo_ctx) demo_fs0 =
      (plot_tool_except (not_a_column ''x'' [(''day'', PList [PInt 1, PInt 2, PInt 3])] (PStr ''week'')),
       Some demo_ctx, demo_fs0)"
    using plot_tool_chart_rejected [of demo_env doc_missing_col
        "PDict [(''day'', PList [PInt 1, PInt 2, PInt 3])]" "PStr ''week''" "PStr ''day''"
        "[(''day'', PList [PInt 1, PInt 2, PInt 3])]" "''bar''"
        "not_a_column ''x'' [(''day'', PList [PInt 1, PInt 2, PInt 3])] (PStr ''week'')"
        "''charts''" "Some demo_ctx" demo_fs0]
    by (simp add: parse_params_def create_chart_def py_str_def demo_env_def demo_loads_def
        demo_docs_def doc_ab_def doc_missing_col_def doc_no_y_def demo_columns_def demo_px_def)
  then show ?thesis
    by (simp add: not_a_column_def quoted_def)
qed

text \<open>
  The claim as the specification words it fails where the chart function rejects the
  column the way plotly express does, with a \<^verbatim>\<open>ValueError\<close>: the call
  \<^verbatim>\<open>plot_tool('{"df": {"day": [1, 2, 3]}, "x_col": "week", "y_col": "day"}')\<close> parses,
  the frame has the single column \<^verbatim>\<open>day\<close>, and the result is the generic error of the
  last handler, not the \<^verbatim>\<open>Missing key in JSON data\<close> result of the \<^verbatim>\<open>KeyError\<close> handler
  for the column \<^verbatim>\<open>week\<close> or for the key \<^verbatim>\<open>x_col\<close>.
\<close>

theorem missing_column_counterexample:
  "parse_params demo_env doc_missing_col =
     Inr (PDict [(''day'', PList [PInt 1, PInt 2, PInt 3])], PStr ''week'', PStr ''day'') \<and>
   DataFrame demo_env (PDict [(''day'', PList [PInt 1, PInt 2, PInt 3])]) =
     Inr [(''day'', PList [PInt 1, PInt 2, PInt 3])] \<and>
   PStr ''week'' \<notin> set (columns demo_env [(''day'', PList [PInt 1, PInt 2, PInt 3])]) \<and>
   fst (plot_tool demo_env doc_missing_col ''line'' ''charts'' None demo_fs0) =
     [(''status'', PStr ''error''),
      (''message'', PStr (''Error generating chart: Value of '' @ quoted ''x'' @
          '' is not the name of a column in '' @ quoted ''data_frame'' @
          ''. Expected one of ['' @ quoted ''day'' @ ''] but received: week''))] \<and>
   fst (plot_tool demo_env doc_missing_col ''line'' ''charts'' None demo_fs0) \<noteq>
     plot_tool_except (KeyError (quoted ''week'')) \<and>
   fst (plot_tool demo_env doc_missing_col ''line'' ''charts'' None demo_fs0) \<noteq>
     plot_tool_except (KeyError (quoted ''x_col''))"
  by (simp add: run_defs)

section \<open>Every call returns a result\<close>

text \<open>
  Claim C2. For every environment and every input, each of the four tools returns a
  result whose \<^verbatim>\<open>status\<close> is \<^verbatim>\<open>success\<close> or \<^verbatim>\<open>error\<close> (or, for \<^verbatim>\<open>delete_chart_tool\<close>,
  \<^verbatim>\<open>warning\<close>): an exception raised by a collaborator or by the interpreter inside a
  tool ends in a handler of that tool. In \<^verbatim>\<open>plot_tool\<close>, an exception that leaves the
  body of the \<^verbatim>\<open>try\<close> and is neither a \<^verbatim>\<open>JSONDecodeError\<close> nor a \<^verbatim>\<open>KeyError\<close> becomes
  the error result whose message is \<^verbatim>\<open>Error generating chart: \<close> followed by the
  exception's own message.
\<close>

theorem tools_return_results:
  "status (fst (plot_tool env params chart_type save_folder tool_context fs)) \<in>
     {Some (PStr ''success''), Some (PStr ''error'')} \<and>
   status (fst (list_charts_tool env tool_context)) \<in>
     {Some (PStr ''success''), Some (PStr ''error'')} \<and>
   status (fst (load_chart_tool env chart_filename tool_context)) \<in>
     {Some (PStr ''success''), Some (PStr ''error'')} \<and>
   status (fst (delete_chart_tool chart_filename tool_context)) \<in>
     {Some (PStr ''success''), Some (PStr ''warning''), Some (PStr ''error'')} \<and>
   (\<forall>e w. plot_tool_body env params chart_type save_folder tool_context fs = (Inl e, w) \<and>
      (\<forall>m. e \<noteq> JSONDecodeError m) \<and> (\<forall>m. e \<noteq> KeyError m) \<longrightarrow>
      plot_tool env params chart_type save_folder tool_context fs =
        ([(''status'', PStr ''error''),
          (''message'', PStr (''Error generating chart: '' @ exn_str e))], w))"
proof (intro conjI allI impI)
  fix e w
  assume "plot_tool_body env params chart_type save_folder tool_context fs = (Inl e, w) \<and>
      (\<forall>m. e \<noteq> JSONDecodeError m) \<and> (\<forall>m. e \<noteq> KeyError m)"
  then show "plot_tool env params chart_type save_folder tool_context fs =
        ([(''status'', PStr ''error''),
          (''message'', PStr (''Error generating chart: '' @ exn_str e))], w)"
    by (simp add: plot_tool_def plot_tool_except_generic)
qed (rule plot_tool_status list_charts_status load_chart_status delete_chart_status)+

theorem tools_return_results_witness:
  "plot_tool demo_env doc_missing_col ''line'' ''charts'' None demo_fs0 =
     ([(''status'', PStr ''error''),
       (''message'', PStr (''Error generating chart: Value of '' @ quoted ''x'' @
          '' is not the name of a column in '' @ quoted ''data_frame'' @
          ''. Expected one of ['' @ quoted ''day'' @ ''] but received: week''))],
      None, demo_fs0)"
proof -
  from tools_return_results [of demo_env doc_missing_col "''line''" "''charts''" None demo_fs0]
  have "plot_tool_body demo_env doc_missing_col ''line'' ''charts'' None demo_fs0 = (Inl e, w) \<and>
      (\<forall>m. e \<noteq> JSONDecodeError m) \<and> (\<forall>m. e \<noteq> KeyError m) \<longrightarrow>
      plot_tool demo_env doc_missing_col ''line'' ''charts'' None demo_fs0 =
        ([(''status'', PStr ''error''),
          (''message'', PStr (''Error generating chart: '' @ exn_str e))], w)" for e w
    by blast
  from this [of "not_a_column ''x'' [(''day'', PList [PInt 1, PInt 2, PInt 3])] (PStr ''week'')"
      "(None, demo_fs0)"] demo_missing_col_body
  show ?thesis
    by (simp add: not_a_column_def quoted_def)
qed

section \<open>Calls without a context\<close>

text \<open>
  Claim C3. Without a \<^verbatim>\<open>tool_context\<close>, \<^verbatim>\<open>list_charts_tool\<close>, \<^verbatim>\<open>load_chart_tool\<close> and
  \<^verbatim>\<open>delete_chart_tool\<close> return the error result that asks for a \<^verbatim>\<open>ToolContext\<close>.
  \<^verbatim>\<open>plot_tool\<close> takes the file branch instead: when the parameters parse and the figure
  is built, it calls \<^verbatim>\<open>os.makedirs(save_folder, exist_ok=True)\<close>, writes the image to
  \<^verbatim>\<open>os.path.join(save_folder, filename)\<close> on the filesystem that \<^verbatim>\<open>makedirs\<close> left, and,
  when neither call raises (the directory is writable), returns success with that
  path as \<^verbatim>\<open>filepath\<close>.
\<close>

theorem without_context:
  "list_charts_tool env None =
     ([(''status'', PStr ''error''),
       (''message'', PStr ''ToolContext required for artifact access'')], None) \<and>
   load_chart_tool env chart_filename None =
     ([(''status'', PStr ''error''),
       (''message'', PStr ''ToolContext required for artifact access'')], None) \<and>
   delete_chart_tool chart_filename None =
     ([(''status'', PStr ''error''),
       (''message'', PStr ''ToolContext required for state management'')], None) \<and>
   (parse_params env params = Inr (df_data, x_col, y_col) \<and>
    build_figure env chart_type df_data x_col y_col = Inr fig \<and>
    filepath = path_join save_folder
                 (make_filename env chart_type x_col y_col (strftime_Ymd_HMS (now env))) \<and>
    makedirs env fs save_folder True = (None, fs_made) \<and>
    write_image env fs_made fig filepath 800 600 2 = (None, fs_written) \<longrightarrow>
    plot_tool env params chart_type save_folder None fs =
      ([(''status'', PStr ''success''),
        (''filepath'', PStr filepath),
        (''chart_type'', PStr chart_type),
        (''message'', PStr (''Chart saved to '' @ filepath))], None, fs_written))"
  by (auto simp: list_charts_tool_def load_chart_tool_def delete_chart_tool_def
      plot_tool_def plot_tool_body_def save_as_file_def Let_def)

theorem without_context_witness:
  "plot_tool demo_env doc_ab ''line'' ''charts'' None demo_fs0 =
     ([(''status'', PStr ''success''),
       (''filepath'', PStr ''charts/line_total_sales_vs_day_20240305_140709.png''),
       (''chart_type'', PStr ''line''),
       (''message'', PStr ''Chart saved to charts/line_total_sales_vs_day_20240305_140709.png'')],
      None, ([''charts''], [''charts/line_total_sales_vs_day_20240305_140709.png'']))"
proof -
  define frame where "frame = [(''day'', PList [PInt 1, PInt 2, PInt 3]),
                 (''total_sales'', PList [PInt 10, PInt 20, PInt 15])]"
  define fig where "fig = Figure ''line'' frame (PStr ''day'') (PStr ''total_sales'')
      ''total_sales vs day'' (Some (16, ''Day'', ''Total Sales'', ''plotly_white''))"
  have b: "build_figure demo_env ''line'' (PDict frame) (PStr ''day'') (PStr ''total_sales'') = Inr fig"
    by (simp add: build_figure_def create_chart_def py_str_def demo_env_def demo_columns_def
        demo_px_def demo_update_layout_def demo_title_def replace_underscores_def is_lower_def
        is_upper_def to_upper_def to_lower_def ascii_lowercase_def ascii_uppercase_def
        frame_def fig_def)
  have f: "''charts/line_total_sales_vs_day_20240305_140709.png'' =
      path_join ''charts'' (make_filename demo_env ''line'' (PStr ''day'') (PStr ''total_sales'')
        (strftime_Ymd_HMS (now demo_env)))"
    by (simp add: path_join_def make_filename_def py_str_def demo_now_env demo_strftime)
  have m: "makedirs demo_env demo_fs0 ''charts'' True = (None, ([''charts''], []))"
    by (simp add: demo_env_def demo_makedirs_def demo_fs0_def)
  have w: "write_image demo_env ([''charts''], []) fig
      ''charts/line_total_sales_vs_day_20240305_140709.png'' 800 600 2 =
      (None, ([''charts''], [''charts/line_total_sales_vs_day_20240305_140709.png'']))"
    by (simp add: demo_env_def demo_write_image_def)
  from without_context [where env = demo_env and params = doc_ab and df_data = "PDict frame"
      and x_col = "PStr ''day''" and y_col = "PStr ''total_sales''" and chart_type = "''line''"
      and fig = fig and save_folder = "''charts''" and fs = demo_fs0
      and filepath = "''charts/line_total_sales_vs_day_20240305_140709.png''"
      and fs_made = "([''charts''], [])"
      and fs_written = "([''charts''], [''charts/line_total_sales_vs_day_20240305_140709.png''])"]
    demo_parse_ab [folded frame_def] b f m w
  have "plot_tool demo_env doc_ab ''line'' ''charts'' None demo_fs0 =
      ([(''status'', PStr ''success''),
        (''filepath'', PStr ''charts/line_total_sales_vs_day_20240305_140709.png''),
        (''chart_type'', PStr ''line''),
        (''message'', PStr (''Chart saved to '' @ ''charts/line_total_sales_vs_day_20240305_140709.png''))],
       None, ([''charts''], [''charts/line_total_sales_vs_day_20240305_140709.png'']))"
    by blast
  then show ?thesis
    by simp
qed

section \<open>Deleting a tracked chart\<close>

text \<open>
  Claim C4. With a context whose tracking list is well formed (absent, or a list of
  records that each have a \<^verbatim>\<open>filename\<close>), \<^verbatim>\<open>delete_chart_tool\<close> does one of two things.
  When no record is named \<^verbatim>\<open>chart_filename\<close>, it returns status \<^verbatim>\<open>warning\<close> and the
  context it was given, state included. Otherwise it returns status \<^verbatim>\<open>success\<close>, its
  message gives the number of records named \<^verbatim>\<open>chart_filename\<close>, and the state's
  \<^verbatim>\<open>generated_charts\<close> becomes the list without those records, the others in their
  order; the artifact store is not touched.
\<close>

theorem delete_chart_tracked:
  assumes "tracked (state ctx) charts"
  shows "delete_chart_tool chart_filename (Some ctx) =
     (if filter (named chart_filename) charts = []
      then ([(''status'', PStr ''warning''),
             (''message'', PStr (''Chart '' @ quoted chart_filename @
                                 '' was not found in tracking history''))],
            Some ctx)
      else ([(''status'', PStr ''success''),
             (''message'', PStr (''Chart '' @ quoted chart_filename @ '' removed from tracking. '' @
                                 show_nat (length (filter (named chart_filename) charts)) @
                                 '' chart(s) removed.''))],
            Some (ctx\<lparr>state := (state ctx)(''generated_charts'' \<mapsto>
                     PList (filter (\<lambda>c. \<not> named chart_filename c) charts))\<rparr>)))"
  by (simp add: delete_chart_tool_def delete_chart_body_tracked [OF assms])

theorem delete_chart_tracked_witness:
  "delete_chart_tool ''bar_total_sales_vs_day_20240305_140709.png'' (Some demo_ctx1) =
     ([(''status'', PStr ''success''),
       (''message'', PStr (''Chart '' @ quoted ''bar_total_sales_vs_day_20240305_140709.png'' @
                           '' removed from tracking. 1 chart(s) removed.''))],
      Some (demo_ctx1\<lparr>state := (state demo_ctx1)(''generated_charts'' \<mapsto> PList [])\<rparr>)) \<and>
   delete_chart_tool ''other.png'' (Some demo_ctx1) =
     ([(''status'', PStr ''warning''),
       (''message'', PStr (''Chart '' @ quoted ''other.png'' @
                           '' was not found in tracking history''))],
      Some demo_ctx1)"
  using delete_chart_tracked [OF demo_tracked, of "''bar_total_sales_vs_day_20240305_140709.png''"]
    delete_chart_tracked [OF demo_tracked, of "''other.png''"]
  by (simp add: named_def demo_record_def chart_info_def show_nat.simps digit_char_def)

section \<open>Rendering into the artifact store\<close>

text \<open>
  Claim C5. When \<^verbatim>\<open>plot_tool\<close> is called with a context and returns status \<^verbatim>\<open>success\<close>:
  the state given had no \<^verbatim>\<open>generated_charts\<close> entry (then \<open>charts\<close> is empty) or held
  the list \<open>charts\<close> under it, and the state returned holds \<open>charts\<close>, every record
  in its place, followed by one record with the keys \<^verbatim>\<open>filename\<close>, \<^verbatim>\<open>chart_type\<close>, \<^verbatim>\<open>x_col\<close>, \<^verbatim>\<open>y_col\<close>,
  \<^verbatim>\<open>timestamp\<close> and \<^verbatim>\<open>version\<close>, the version being the one \<^verbatim>\<open>save_artifact\<close> returned
  for the image stored under the filename; every other key of the state, and the
  filesystem, are unchanged; the result has \<^verbatim>\<open>artifact_name\<close>, \<^verbatim>\<open>version\<close> and
  \<^verbatim>\<open>chart_type\<close>.
\<close>

theorem render_appends_record:
  assumes "plot_tool env params chart_type save_folder (Some ctx) fs = (r, tool_context', fs')"
    and "status r = Some (PStr ''success'')"
  shows "\<exists>df_data x_col y_col fig img version store' charts ts filename.
      parse_params env params = Inr (df_data, x_col, y_col) \<and>
      build_figure env chart_type df_data x_col y_col = Inr fig \<and>
      ts = strftime_Ymd_HMS (now env) \<and>
      filename = make_filename env chart_type x_col y_col ts \<and>
      to_image env fig ''png'' 800 600 2 = Inr img \<and>
      save_artifact env (artifacts ctx) filename (Part_from_bytes img ''image/png'') =
        (Inr version, store') \<and>
      (case state ctx ''generated_charts'' of
         None \<Rightarrow> charts = []
       | Some previous \<Rightarrow> previous = PList charts) \<and>
      tool_context' =
        Some (ctx\<lparr>artifacts := store',
                  state := (state ctx)(''generated_charts'' \<mapsto>
                    PList (charts @
                      [PDict [(''filename'', PStr filename), (''chart_type'', PStr chart_type),
                              (''x_col'', x_col), (''y_col'', y_col),
                              (''timestamp'', PStr ts), (''version'', PInt version)]]))\<rparr>) \<and>
      fs' = fs \<and>
      r = [(''status'', PStr ''success''),
           (''artifact_name'', PStr filename),
           (''version'', PInt version),
           (''chart_type'', PStr chart_type),
           (''message'', PStr (''Chart saved as artifact: '' @ filename))]"
proof -
  from plot_tool_success [OF assms] obtain df_data x_col y_col fig ctx' where
    p: "parse_params env params = Inr (df_data, x_col, y_col)" and
    b: "build_figure env chart_type df_data x_col y_col = Inr fig" and
    s: "save_as_artifact env fig
          (make_filename env chart_type x_col y_col (strftime_Ymd_HMS (now env)))
          chart_type x_col y_col (strftime_Ymd_HMS (now env)) ctx = (Inr r, ctx')" and
    w: "tool_context' = Some ctx'" "fs' = fs"
    by auto
  have g: "(case state ctx ''generated_charts'' of
             None \<Rightarrow> charts = []
           | Some previous \<Rightarrow> previous = PList charts)"
    if "state_get (state ctx) ''generated_charts'' (PList []) = PList charts" for charts
    using that by (auto simp: state_get_def split: option.splits)
  from save_as_artifact_success [OF s] p b w g show ?thesis
    unfolding chart_info_def by blast
qed

theorem render_appends_record_witness:
  "plot_tool demo_env doc_ab ''bar'' ''charts'' (Some demo_ctx1) demo_fs0 =
     ([(''status'', PStr ''success''),
       (''artifact_name'', PStr ''bar_total_sales_vs_day_20240305_140709.png''),
       (''version'', PInt 1),
       (''chart_type'', PStr ''bar''),
       (''message'', PStr ''Chart saved as artifact: bar_total_sales_vs_day_20240305_140709.png'')],
      Some \<lparr>artifacts = [(''bar_total_sales_vs_day_20240305_140709.png'', demo_png),
                         (''notes.txt'', Part None),
                         (''bar_total_sales_vs_day_20240305_140709.png'', demo_png)],
            state = [''generated_charts'' \<mapsto>
                       PList [demo_record,
                              chart_info ''bar_total_sales_vs_day_20240305_140709.png'' ''bar''
                                (PStr ''day'') (PStr ''total_sales'') ''20240305_140709'' 1]]\<rparr>,
      demo_fs0) \<and>
   plot_tool demo_env doc_ab ''bar'' ''charts'' (Some demo_ctx) demo_fs0 =
     ([(''status'', PStr ''success''),
       (''artifact_name'', PStr ''bar_total_sales_vs_day_20240305_140709.png''),
       (''version'', PInt 0),
       (''chart_type'', PStr ''bar''),
       (''message'', PStr ''Chart saved as artifact: bar_total_sales_vs_day_20240305_140709.png'')],
      Some \<lparr>artifacts = [(''bar_total_sales_vs_day_20240305_140709.png'', demo_png)],
            state = [''generated_charts'' \<mapsto> PList [demo_record]]\<rparr>,
      demo_fs0)"
proof -
  have fn: "make_filename demo_env ''bar'' (PStr ''day'') (PStr ''total_sales'')
      (strftime_Ymd_HMS (now demo_env)) = ''bar_total_sales_vs_day_20240305_140709.png''"
    by (simp add: make_filename_def py_str_def demo_now_env demo_strftime)
  have known: "plot_tool demo_env doc_ab ''bar'' ''charts'' (Some c) demo_fs0 =
      ([(''status'', PStr ''success''),
        (''artifact_name'', PStr ''bar_total_sales_vs_day_20240305_140709.png''),
        (''version'', PInt (int (length (filter (\<lambda>e. fst e = ''bar_total_sales_vs_day_20240305_140709.png'')
                                          (artifacts c))))),
        (''chart_type'', PStr ''bar''),
        (''message'', PStr ''Chart saved as artifact: bar_total_sales_vs_day_20240305_140709.png'')],
       Some (c\<lparr>artifacts := artifacts c @ [(''bar_total_sales_vs_day_20240305_140709.png'', demo_png)],
               state := (state c)(''generated_charts'' \<mapsto>
                 PList (charts @
                   [chart_info ''bar_total_sales_vs_day_20240305_140709.png'' ''bar''
                      (PStr ''day'') (PStr ''total_sales'') ''20240305_140709''
                      (int (length (filter (\<lambda>e. fst e = ''bar_total_sales_vs_day_20240305_140709.png'')
                                          (artifacts c))))]))\<rparr>),
       demo_fs0)"
    if st: "status (fst (plot_tool demo_env doc_ab ''bar'' ''charts'' (Some c) demo_fs0)) =
              Some (PStr ''success'')"
      and prev: "state c ''generated_charts'' = Some (PList charts) \<or>
                 state c ''generated_charts'' = None \<and> charts = []"
    for c :: "demo_store tool_context" and charts
  proof -
    obtain r tc fs' where run:
      "plot_tool demo_env doc_ab ''bar'' ''charts'' (Some c) demo_fs0 = (r, tc, fs')"
      by (cases "plot_tool demo_env doc_ab ''bar'' ''charts'' (Some c) demo_fs0")
    with st have st': "status r = Some (PStr ''success'')" by simp
    from render_appends_record [OF run st'] obtain df_data x_col y_col fig img version store' cs
      where p: "parse_params demo_env doc_ab = Inr (df_data, x_col, y_col)"
        and i: "to_image demo_env fig ''png'' 800 600 2 = Inr img"
        and s: "save_artifact demo_env (artifacts c)
                  (make_filename demo_env ''bar'' x_col y_col (strftime_Ymd_HMS (now demo_env)))
                  (Part_from_bytes img ''image/png'') = (Inr version, store')"
        and g: "case state c ''generated_charts'' of
                  None \<Rightarrow> cs = [] | Some previous \<Rightarrow> previous = PList cs"
        and tc: "tc = Some (c\<lparr>artifacts := store',
                    state := (state c)(''generated_charts'' \<mapsto>
                      PList (cs @
                        [PDict [(''filename'', PStr (make_filename demo_env ''bar'' x_col y_col
                                    (strftime_Ymd_HMS (now demo_env)))),
                                (''chart_type'', PStr ''bar''),
                                (''x_col'', x_col), (''y_col'', y_col),
                                (''timestamp'', PStr (strftime_Ymd_HMS (now demo_env))),
                                (''version'', PInt version)]]))\<rparr>)"
        and fs: "fs' = demo_fs0"
        and r: "r = [(''status'', PStr ''success''),
             (''artifact_name'', PStr (make_filename demo_env ''bar'' x_col y_col
                                    (strftime_Ymd_HMS (now demo_env)))),
             (''version'', PInt version),
             (''chart_type'', PStr ''bar''),
             (''message'', PStr (''Chart saved as artifact: '' @
                 make_filename demo_env ''bar'' x_col y_col (strftime_Ymd_HMS (now demo_env))))]"
      by blast
    from p have xy: "x_col = PStr ''day''" "y_col = PStr ''total_sales''"
      by (simp_all add: demo_parse_ab)
    from i have img: "img = [137, 80, 78, 71, 13, 10, 26, 10]"
      by (simp add: demo_env_store demo_to_image_def)
    from s have v: "version = int (length (filter (\<lambda>e. fst e = ''bar_total_sales_vs_day_20240305_140709.png'')
                                          (artifacts c)))"
        "store' = artifacts c @ [(''bar_total_sales_vs_day_20240305_140709.png'', demo_png)]"
      unfolding xy fn by (auto simp: img demo_env_store demo_save_artifact_def demo_png_def)
    from g prev have c: "cs = charts" by auto
    show ?thesis
      unfolding run tc fs r xy fn
      by (simp add: v c demo_strftime demo_now_env chart_info_def)
  qed
  have st1: "status (fst (plot_tool demo_env doc_ab ''bar'' ''charts'' (Some demo_ctx1) demo_fs0)) =
      Some (PStr ''success'')"
    by (simp add: run_defs status_def)
  have st0: "status (fst (plot_tool demo_env doc_ab ''bar'' ''charts'' (Some demo_ctx) demo_fs0)) =
      Some (PStr ''success'')"
    by (simp add: run_defs status_def)
  have p1: "state demo_ctx1 ''generated_charts'' = Some (PList [demo_record]) \<or>
            state demo_ctx1 ''generated_charts'' = None \<and> [demo_record] = []"
    by (simp add: demo_ctx1_def)
  have p0: "state demo_ctx ''generated_charts'' = Some (PList []) \<or>
            state demo_ctx ''generated_charts'' = None \<and> ([] :: pyval list) = []"
    by (simp add: demo_ctx_def)
  from known [OF st1 p1] known [OF st0 p0] show ?thesis
    by (simp add: demo_ctx1_def demo_ctx_def demo_record_def chart_info_def)
qed

section \<open>The filename\<close>

text \<open>
  Claim C6. When \<^verbatim>\<open>plot_tool\<close> returns status \<^verbatim>\<open>success\<close> and the clock reads a valid
  local time, \<^verbatim>\<open>x_col\<close> and \<^verbatim>\<open>y_col\<close> are strings and the filename is
  \<^verbatim>\<open>{chart_type}_{y_col}_vs_{x_col}_{timestamp}.png\<close>, where the timestamp is the clock's
  reading as \<^verbatim>\<open>YYYYMMDD_HHMMSS\<close>: fifteen characters, eight digits, an underscore and
  six digits, which read back as the year, month, day, hour, minute and second of the
  clock. With a context the filename is returned as \<^verbatim>\<open>artifact_name\<close>; without one
  the result has \<^verbatim>\<open>filepath\<close>, which is \<^verbatim>\<open>os.path.join(save_folder, filename)\<close> and
  ends with the filename.
\<close>

theorem render_filename:
  assumes "plot_tool env params chart_type save_folder tool_context fs = (r, w)"
    and "status r = Some (PStr ''success'')"
    and "valid_datetime (now env)"
  shows "\<exists>df_data x y ts filename.
      parse_params env params = Inr (df_data, PStr x, PStr y) \<and>
      ts = strftime_Ymd_HMS (now env) \<and> timestamp_shape ts \<and> read_Ymd_HMS ts = now env \<and>
      filename = chart_type @ ''_'' @ y @ ''_vs_'' @ x @ ''_'' @ ts @ ''.png'' \<and>
      (case tool_context of
         Some ctx \<Rightarrow> map_of r ''artifact_name'' = Some (PStr filename)
       | None \<Rightarrow> map_of r ''filepath'' = Some (PStr (path_join save_folder filename))) \<and>
      endswith (path_join save_folder filename) filename"
proof -
  from plot_tool_success [OF assms(1,2)] obtain df_data x_col y_col fig where
    p: "parse_params env params = Inr (df_data, x_col, y_col)" and
    b: "build_figure env chart_type df_data x_col y_col = Inr fig" and
    c: "case tool_context of
         Some ctx \<Rightarrow>
           \<exists>ctx'. save_as_artifact env fig
                    (make_filename env chart_type x_col y_col (strftime_Ymd_HMS (now env)))
                    chart_type x_col y_col (strftime_Ymd_HMS (now env)) ctx = (Inr r, ctx') \<and>
                 w = (Some ctx', fs)
       | None \<Rightarrow>
           \<exists>fs'. save_as_file env fig
                   (make_filename env chart_type x_col y_col (strftime_Ymd_HMS (now env)))
                   chart_type save_folder fs = (Inr r, fs') \<and>
                 w = (None, fs')"
    by blast
  from build_figure_str [OF b] obtain x y where xy: "x_col = PStr x" "y_col = PStr y"
    by blast
  define ts where "ts = strftime_Ymd_HMS (now env)"
  define filename where "filename = chart_type @ ''_'' @ y @ ''_vs_'' @ x @ ''_'' @ ts @ ''.png''"
  have fn: "make_filename env chart_type x_col y_col (strftime_Ymd_HMS (now env)) = filename"
    by (simp add: make_filename_def py_str_def xy filename_def ts_def)
  have "case tool_context of
         Some ctx \<Rightarrow> map_of r ''artifact_name'' = Some (PStr filename)
       | None \<Rightarrow> map_of r ''filepath'' = Some (PStr (path_join save_folder filename))"
  proof (cases tool_context)
    case None
    with c fn obtain fs' where "save_as_file env fig filename chart_type save_folder fs = (Inr r, fs')"
      by auto
    then have "map_of r ''filepath'' = Some (PStr (path_join save_folder filename))"
      by (auto simp: save_as_file_def Let_def split: prod.splits option.splits)
    with None show ?thesis by simp
  next
    case (Some ctx)
    with c fn obtain ctx' where
      "save_as_artifact env fig filename chart_type x_col y_col (strftime_Ymd_HMS (now env)) ctx = (Inr r, ctx')"
      by auto
    from save_as_artifact_success [OF this]
    have "map_of r ''artifact_name'' = Some (PStr filename)" by auto
    with Some show ?thesis by simp
  qed
  with p xy strftime_shape [OF assms(3)] strftime_read_back [OF assms(3)]
    endswith_path_join [of save_folder filename]
  show ?thesis
    unfolding ts_def filename_def by blast
qed

theorem render_filename_witness:
  "map_of (fst (plot_tool demo_env doc_ab ''line'' ''charts'' None demo_fs0)) ''filepath'' =
     Some (PStr ''charts/line_total_sales_vs_day_20240305_140709.png'') \<and>
   timestamp_shape ''20240305_140709'' \<and>
   read_Ymd_HMS ''20240305_140709'' = demo_now"
proof -
  obtain r w where run: "plot_tool demo_env doc_ab ''line'' ''charts'' None demo_fs0 = (r, w)"
    by (cases "plot_tool demo_env doc_ab ''line'' ''charts'' None demo_fs0")
  have "status (fst (plot_tool demo_env doc_ab ''line'' ''charts'' None demo_fs0)) =
      Some (PStr ''success'')"
    by (simp add: run_defs status_def)
  with run have st: "status r = Some (PStr ''success'')" by simp
  have v: "valid_datetime (now demo_env)"
    by (simp add: valid_datetime_def demo_now_env demo_now_def)
  from render_filename [OF run st v] obtain df_data x y where
    p: "parse_params demo_env doc_ab = Inr (df_data, PStr x, PStr y)" and
    sh: "timestamp_shape (strftime_Ymd_HMS (now demo_env))" and
    rd: "read_Ymd_HMS (strftime_Ymd_HMS (now demo_env)) = now demo_env" and
    f: "map_of r ''filepath'' = Some (PStr (path_join ''charts''
          (''line'' @ ''_'' @ y @ ''_vs_'' @ x @ ''_'' @ strftime_Ymd_HMS (now demo_env) @ ''.png'')))"
    by auto
  from p have xy: "x = ''day''" "y = ''total_sales''"
    by (simp_all add: demo_parse_ab)
  from sh rd f show ?thesis
    by (simp add: run xy demo_now_env demo_strftime path_join_def)
qed

section \<open>Unrecognised chart types\<close>

text \<open>
  Claim C7. For a \<^verbatim>\<open>chart_type\<close> argument that is left out (the default \<^verbatim>\<open>"line"\<close> is
  taken) or is none of \<^verbatim>\<open>line\<close>, \<^verbatim>\<open>bar\<close>, \<^verbatim>\<open>scatter\<close>, \<^verbatim>\<open>area\<close>, the figure that
  \<^verbatim>\<open>plot_tool\<close> builds from the data and the two columns, layout included, is the one
  it builds for \<^verbatim>\<open>chart_type = "line"\<close>; where building fails, it fails with the same
  exception.
\<close>

theorem unknown_chart_type_is_line:
  assumes "given \<notin> {Some ''line'', Some ''bar'', Some ''scatter'', Some ''area''}"
  shows "build_figure env (chart_type_arg given) df_data x_col y_col =
         build_figure env ''line'' df_data x_col y_col"
proof -
  have "create_chart env (chart_type_arg given) df x_col y_col =
        create_chart env ''line'' df x_col y_col" for df
    using assms by (cases given) (simp_all add: chart_type_arg_def create_chart_def)
  then show ?thesis
    by (simp add: build_figure_def split: sum.splits)
qed

theorem unknown_chart_type_is_line_witness:
  "build_figure demo_env (chart_type_arg (Some ''pie''))
     (PDict [(''day'', PList [PInt 1, PInt 2, PInt 3])]) (PStr ''day'') (PStr ''day'') =
   build_figure demo_env ''line''
     (PDict [(''day'', PList [PInt 1, PInt 2, PInt 3])]) (PStr ''day'') (PStr ''day'') \<and>
   build_figure demo_env (chart_type_arg None)
     (PDict [(''day'', PList [PInt 1, PInt 2, PInt 3])]) (PStr ''day'') (PStr ''day'') =
   build_figure demo_env ''line''
     (PDict [(''day'', PList [PInt 1, PInt 2, PInt 3])]) (PStr ''day'') (PStr ''day'')"
  using unknown_chart_type_is_line [of "Some ''pie''" demo_env]
    unknown_chart_type_is_line [of None demo_env]
  by simp

section \<open>Loading a chart\<close>

text \<open>
  Claim C8. With a context: when the artifact store has nothing under
  \<^verbatim>\<open>chart_filename\<close> (\<^verbatim>\<open>load_artifact\<close> returns \<^verbatim>\<open>None\<close>), \<^verbatim>\<open>load_chart_tool\<close> returns a
  result, not an exception: status \<^verbatim>\<open>error\<close>, the message that the chart was not
  found, and no \<^verbatim>\<open>chart_info\<close>. When the store returns a part that carries its data
  (so that its mime type can be read) and the tracking list is well formed, the
  result is a success whose \<^verbatim>\<open>chart_info\<close> is the first record of the list named
  \<^verbatim>\<open>chart_filename\<close>, or \<^verbatim>\<open>None\<close> when no record has that name.
\<close>

theorem load_chart_with_context:
  "(load_artifact env (artifacts ctx) chart_filename = (Inr None, store') \<longrightarrow>
      load_chart_tool env chart_filename (Some ctx) =
        ([(''status'', PStr ''error''),
          (''message'', PStr (''Chart '' @ quoted chart_filename @ '' not found in artifacts''))],
         Some (ctx\<lparr>artifacts := store'\<rparr>))) \<and>
   (load_artifact env (artifacts ctx) chart_filename = (Inr (Some chart_part), store') \<and>
    tracked (state ctx) charts \<and> part_mime_type chart_part = Inr mime \<longrightarrow>
      load_chart_tool env chart_filename (Some ctx) =
        ([(''status'', PStr ''success''),
          (''chart_filename'', PStr chart_filename),
          (''chart_info'', case List.find (named chart_filename) charts of
                             None \<Rightarrow> PNone | Some chart \<Rightarrow> chart),
          (''mime_type'', mime),
          (''message'', PStr (''Chart '' @ quoted chart_filename @ '' loaded successfully''))],
         Some (ctx\<lparr>artifacts := store'\<rparr>)))"
  by (auto simp: load_chart_tool_def load_chart_body_def tracked_def find_chart_tracked)

theorem load_chart_with_context_witness:
  "load_chart_tool demo_env ''other.png'' (Some demo_ctx1) =
     ([(''status'', PStr ''error''),
       (''message'', PStr (''Chart '' @ quoted ''other.png'' @ '' not found in artifacts''))],
      Some demo_ctx1) \<and>
   load_chart_tool demo_env ''bar_total_sales_vs_day_20240305_140709.png'' (Some demo_ctx1) =
     ([(''status'', PStr ''success''),
       (''chart_filename'', PStr ''bar_total_sales_vs_day_20240305_140709.png''),
       (''chart_info'', demo_record),
       (''mime_type'', PStr ''image/png''),
       (''message'', PStr (''Chart '' @ quoted ''bar_total_sales_vs_day_20240305_140709.png'' @
                           '' loaded successfully''))],
      Some demo_ctx1)"
proof -
  have a: "load_artifact demo_env (artifacts demo_ctx1) ''other.png'' = (Inr None, artifacts demo_ctx1)"
    by (simp add: demo_env_def demo_load_artifact_def demo_ctx1_def)
  have b: "load_artifact demo_env (artifacts demo_ctx1) ''bar_total_sales_vs_day_20240305_140709.png'' =
      (Inr (Some demo_png), artifacts demo_ctx1)"
    by (simp add: demo_env_def demo_load_artifact_def demo_ctx1_def)
  have m: "part_mime_type demo_png = Inr (PStr ''image/png'')"
    by (simp add: demo_png_def Part_from_bytes_def)
  from load_chart_with_context [where env = demo_env and ctx = demo_ctx1 and
      chart_filename = "''other.png''" and store' = "artifacts demo_ctx1"]
    load_chart_with_context [where env = demo_env and ctx = demo_ctx1 and
      chart_filename = "''bar_total_sales_vs_day_20240305_140709.png''" and
      store' = "artifacts demo_ctx1" and chart_part = demo_png and charts = "[demo_record]" and
      mime = "PStr ''image/png''"]
    a b demo_tracked m
  show ?thesis
    by (simp add: named_def demo_record_def chart_info_def)
qed

section \<open>Malformed JSON\<close>

text \<open>
  Claim C9. When \<^verbatim>\<open>json.loads(params)\<close> raises \<^verbatim>\<open>JSONDecodeError\<close>, that is, when \<^verbatim>\<open>params\<close>
  is not well-formed JSON, \<^verbatim>\<open>plot_tool\<close> returns the error result with the message
  \<^verbatim>\<open>Invalid JSON format in params\<close>, whatever the chart type, the folder and the
  context; the context (artifact store and session state) and the filesystem are the
  ones it was given, so no artifact, file or tracking record was produced.
\<close>

theorem plot_tool_invalid_json:
  assumes "json_loads env params = Inl (JSONDecodeError m)"
  shows "plot_tool env params chart_type save_folder tool_context fs =
           ([(''status'', PStr ''error''), (''message'', PStr ''Invalid JSON format in params'')],
            tool_context, fs)"
  using assms by (simp add: plot_tool_def plot_tool_body_def parse_params_def)

theorem plot_tool_invalid_json_witness:
  "plot_tool demo_env ''not json'' ''bar'' ''charts'' (Some demo_ctx) demo_fs0 =
     ([(''status'', PStr ''error''), (''message'', PStr ''Invalid JSON format in params'')],
      Some demo_ctx, demo_fs0)"
  by (rule plot_tool_invalid_json [where m = "''Expecting value: line 1 column 1 (char 0)''"])
     (simp add: demo_defs)

section \<open>Listing and loading only read the state\<close>

text \<open>
  Claim C10. \<^verbatim>\<open>list_charts_tool\<close> and \<^verbatim>\<open>load_chart_tool\<close> return the context with the
  session state they were given (and no context when given none), whatever the
  artifact store does. When the store lists its names, \<^verbatim>\<open>list_charts_tool\<close> returns
  the names that end in \<^verbatim>\<open>.png\<close>, the tracking list as the state holds it, and the
  number of those names.
\<close>

theorem reads_leave_state:
  "map_option state (snd (list_charts_tool env tool_context)) = map_option state tool_context \<and>
   map_option state (snd (load_chart_tool env chart_filename tool_context)) =
     map_option state tool_context \<and>
   (list_artifacts env (artifacts ctx) = (Inr names, store') \<longrightarrow>
      fst (list_charts_tool env (Some ctx)) =
        [(''status'', PStr ''success''),
         (''chart_artifacts'', PList (map PStr (filter (\<lambda>f. endswith f ''.png'') names))),
         (''charts_history'', state_get (state ctx) ''generated_charts'' (PList [])),
         (''total_charts'', PInt (int (length (filter (\<lambda>f. endswith f ''.png'') names)))),
         (''message'', PStr (''Found '' @
            show_nat (length (filter (\<lambda>f. endswith f ''.png'') names)) @ '' chart artifacts''))])"
  by (auto simp: list_charts_tool_def load_chart_tool_def load_chart_body_def Let_def
      split: option.splits sum.splits prod.splits)

theorem reads_leave_state_witness:
  "fst (list_charts_tool demo_env (Some demo_ctx1)) =
     [(''status'', PStr ''success''),
      (''chart_artifacts'', PList [PStr ''bar_total_sales_vs_day_20240305_140709.png'']),
      (''charts_history'', PList [demo_record]),
      (''total_charts'', PInt 1),
      (''message'', PStr ''Found 1 chart artifacts'')] \<and>
   map_option state (snd (list_charts_tool demo_env (Some demo_ctx1))) = Some (state demo_ctx1) \<and>
   map_option state
     (snd (load_chart_tool demo_env ''bar_total_sales_vs_day_20240305_140709.png'' (Some demo_ctx1))) =
     Some (state demo_ctx1)"
  using reads_leave_state [of demo_env "Some demo_ctx1"
      "''bar_total_sales_vs_day_20240305_140709.png''" demo_ctx1
      "[''bar_total_sales_vs_day_20240305_140709.png'', ''notes.txt'']" "artifacts demo_ctx1"]
  by (simp add: demo_env_def demo_list_artifacts_def demo_ctx1_def endswith_def state_get_def
      show_nat.simps digit_char_def)

end
